theory Spec2Isabelle
  imports Main
begin

section \<open>Python values, dictionaries and slices\<close>

text \<open>
  The stored records of \<^verbatim>\<open>demo_app.py\<close> have the type \<^verbatim>\<open>Dict[str, Any]\<close>. The values a
  record can hold are the Python values below. A float is kept as the decimal literal
  that denotes it (mantissa and power of ten: \<^verbatim>\<open>45.2\<close> is \<open>PFloat 452 (- 1)\<close>); no
  arithmetic is done on floats anywhere in the provider. A dictionary with string keys
  is an association list in insertion order, read through \<open>map_of\<close>.
\<close>

datatype pyval =
    PNone
  | PBool bool
  | PInt int
  | PFloat int int
  | PStr string
  | PList "pyval list"
  | PDict "(string \<times> pyval) list"

type_synonym pydict = "(string \<times> pyval) list"

datatype py_error = KeyError string

text \<open>\<^verbatim>\<open>d[k]\<close>: raises \<^verbatim>\<open>KeyError\<close> when the key is absent.\<close>

definition getitem :: "pydict \<Rightarrow> string \<Rightarrow> py_error + pyval" where
  "getitem d k = (case map_of d k of None \<Rightarrow> Inl (KeyError k) | Some v \<Rightarrow> Inr v)"

text \<open>\<^verbatim>\<open>d.get(k, default)\<close>: never raises.\<close>

definition dict_get :: "pydict \<Rightarrow> string \<Rightarrow> pyval \<Rightarrow> pyval" where
  "dict_get d k dflt = (case map_of d k of None \<Rightarrow> dflt | Some v \<Rightarrow> v)"

text \<open>
  \<^verbatim>\<open>v == s\<close> for a string \<open>s\<close>: among the values above only a string equals a string.
\<close>

fun py_eq_str :: "pyval \<Rightarrow> string \<Rightarrow> bool" where
  "py_eq_str (PStr t) s = (t = s)"
| "py_eq_str v s = False"

text \<open>
  \<^verbatim>\<open>xs[:stop]\<close> for an integer \<open>stop\<close>: a negative bound counts from the end and is
  clamped at zero, a bound beyond the end is clamped at the length.
\<close>

definition slice_to :: "'a list \<Rightarrow> int \<Rightarrow> 'a list" where
  "slice_to xs stop =
     (let n = int (length xs);
          hi = (if stop < 0 then (if n + stop < 0 then 0 else n + stop)
                else (if n \<le> stop then n else stop))
      in take (nat hi) xs)"

section \<open>The provider and the models it returns\<close>

text \<open>
  The dataclass \<^verbatim>\<open>MockTranscriptionProvider\<close> with its fields \<^verbatim>\<open>_id\<close>, \<^verbatim>\<open>_name\<close> and
  \<^verbatim>\<open>_records\<close> (an identifier cannot start with an underscore here, so the fields carry
  the prefix \<open>self\<close>).
\<close>

record MockTranscriptionProvider =
  self_id :: string
  self_name :: string
  self_records :: "pydict list"

text \<open>
  \<^verbatim>\<open>SourceRecord\<close> and \<^verbatim>\<open>SourceBlock\<close> come from the imported package
  \<^verbatim>\<open>cjm_source_provider.models\<close>; the provider only calls their constructors with keyword
  arguments, so each is the record of the arguments it was given.
\<close>

record SourceRecord =
  sr_record_id :: pyval
  sr_media_path :: pyval
  sr_text :: pyval
  sr_metadata :: pyval
  sr_created_at :: pyval
  sr_provider_id :: string

record SourceBlock =
  sb_id :: pyval
  sb_provider_id :: string
  sb_text :: pyval
  sb_media_path :: pyval
  sb_metadata :: pyval

text \<open>
  A method call takes the provider and returns the value it returns or the exception it
  raises, together with the provider as the call leaves it.
\<close>

type_synonym 'a outcome = "(py_error + 'a) \<times> MockTranscriptionProvider"

definition provider_id :: "MockTranscriptionProvider \<Rightarrow> string outcome" where
  "provider_id self = (Inr (self_id self), self)"

definition provider_name :: "MockTranscriptionProvider \<Rightarrow> string outcome" where
  "provider_name self = (Inr (self_name self), self)"

definition provider_type :: "MockTranscriptionProvider \<Rightarrow> string outcome" where
  "provider_type self = (Inr ''transcription_db'', self)"

definition is_available :: "MockTranscriptionProvider \<Rightarrow> bool outcome" where
  "is_available self = (Inr True, self)"

subsection \<open>\<^verbatim>\<open>query_records\<close>\<close>

text \<open>
  The body of the \<^verbatim>\<open>for\<close> loop: \<^verbatim>\<open>rec["job_id"]\<close> is the first argument evaluated and the
  only one that can raise; the new \<^verbatim>\<open>SourceRecord\<close> is appended to the local list
  \<^verbatim>\<open>records\<close>.
\<close>

fun query_records_loop ::
  "MockTranscriptionProvider \<Rightarrow> pydict list \<Rightarrow> SourceRecord list \<Rightarrow> py_error + SourceRecord list"
where
  "query_records_loop self [] records = Inr records"
| "query_records_loop self (r # rest) records =
     (case getitem r ''job_id'' of
        Inl e \<Rightarrow> Inl e
      | Inr job_id \<Rightarrow>
          query_records_loop self rest
            (records @
              [\<lparr>sr_record_id = job_id,
                sr_media_path = dict_get r ''audio_path'' (PStr ''''),
                sr_text = dict_get r ''text'' (PStr ''''),
                sr_metadata = dict_get r ''metadata'' (PDict []),
                sr_created_at = dict_get r ''created_at'' (PStr ''''),
                sr_provider_id = self_id self\<rparr>]))"

definition query_records :: "MockTranscriptionProvider \<Rightarrow> int \<Rightarrow> SourceRecord list outcome" where
  "query_records self limit =
     (query_records_loop self (slice_to (self_records self) limit) [], self)"

subsection \<open>\<^verbatim>\<open>get_source_block\<close>\<close>

text \<open>
  The loop runs over all stored records; the comparison reads \<^verbatim>\<open>rec["job_id"]\<close>, and on a
  match the constructor call reads it again. Falling off the end returns \<^verbatim>\<open>None\<close>.
\<close>

fun get_source_block_loop ::
  "MockTranscriptionProvider \<Rightarrow> pydict list \<Rightarrow> string \<Rightarrow> py_error + SourceBlock option"
where
  "get_source_block_loop self [] record_id = Inr None"
| "get_source_block_loop self (r # rest) record_id =
     (case getitem r ''job_id'' of
        Inl e \<Rightarrow> Inl e
      | Inr v \<Rightarrow>
          if py_eq_str v record_id
          then (case getitem r ''job_id'' of
                  Inl e \<Rightarrow> Inl e
                | Inr job_id \<Rightarrow>
                    Inr (Some \<lparr>sb_id = job_id,
                               sb_provider_id = self_id self,
                               sb_text = dict_get r ''text'' (PStr ''''),
                               sb_media_path = dict_get r ''audio_path'' PNone,
                               sb_metadata = dict_get r ''metadata'' (PDict [])\<rparr>))
          else get_source_block_loop self rest record_id)"

definition get_source_block ::
  "MockTranscriptionProvider \<Rightarrow> string \<Rightarrow> SourceBlock option outcome" where
  "get_source_block self record_id =
     (get_source_block_loop self (self_records self) record_id, self)"

subsection \<open>Sample data and construction\<close>

text \<open>
  \<^verbatim>\<open>_generate_sample_data\<close> reads the clock five times. A \<^verbatim>\<open>datetime\<close> is a count of
  microseconds, \<open>now k\<close> is what the \<open>k\<close>-th call of \<^verbatim>\<open>datetime.now()\<close> returns, and
  \<open>isoformat\<close> is the library's rendering of a \<^verbatim>\<open>datetime\<close>; both are parameters.
\<close>

definition timedelta :: "int \<Rightarrow> int \<Rightarrow> int" where
  "timedelta days hours = (days * 24 + hours) * 3600 * 1000000"

definition generate_sample_data :: "(int \<Rightarrow> string) \<Rightarrow> (nat \<Rightarrow> int) \<Rightarrow> pydict list" where
  "generate_sample_data isoformat now =
     [[(''job_id'', PStr ''job_demo_001''),
       (''audio_path'', PStr ''/audio/sun_tzu_ch1.mp3''),
       (''text'', PStr (''Laying Plans. Sun Tzu said: The art of war is of vital importance '' @
                        ''to the State. It is a matter of life and death, a road either to '' @
                        ''safety or to ruin. Hence it is a subject of inquiry which can on '' @
                        ''no account be neglected.'')),
       (''created_at'', PStr (isoformat (now 0 - timedelta 1 0))),
       (''metadata'', PDict [(''chapter'', PInt 1), (''duration'', PFloat 452 (- 1))])],
      [(''job_id'', PStr ''job_demo_002''),
       (''audio_path'', PStr ''/audio/sun_tzu_ch1.mp3''),
       (''text'', PStr (''The art of war, then, is governed by five constant factors, to be '' @
                        ''taken into account in one's deliberations, when seeking to determine '' @
                        ''the conditions obtaining in the field.'')),
       (''created_at'', PStr (isoformat (now 1 - timedelta 1 1))),
       (''metadata'', PDict [(''chapter'', PInt 1), (''duration'', PFloat 321 (- 1))])],
      [(''job_id'', PStr ''job_demo_003''),
       (''audio_path'', PStr ''/audio/sun_tzu_ch2.mp3''),
       (''text'', PStr (''Waging War. Sun Tzu said: In the operations of war, where there are '' @
                        ''in the field a thousand swift chariots, as many heavy chariots, and '' @
                        ''a hundred thousand mail-clad soldiers, with provisions enough to '' @
                        ''carry them a thousand li, the expenditure at home and at the front '' @
                        ''will reach the total of a thousand ounces of silver per day.'')),
       (''created_at'', PStr (isoformat (now 2 - timedelta 2 0))),
       (''metadata'', PDict [(''chapter'', PInt 2), (''duration'', PFloat 587 (- 1))])],
      [(''job_id'', PStr ''job_demo_004''),
       (''audio_path'', PStr ''/audio/sun_tzu_ch3.mp3''),
       (''text'', PStr (''Attack by Stratagem. Sun Tzu said: In the practical art of war, the '' @
                        ''best thing of all is to take the enemy's country whole and intact; '' @
                        ''to shatter and destroy it is not so good.'')),
       (''created_at'', PStr (isoformat (now 3 - timedelta 3 0))),
       (''metadata'', PDict [(''chapter'', PInt 3), (''duration'', PFloat 415 (- 1))])],
      [(''job_id'', PStr ''job_demo_005''),
       (''audio_path'', PStr ''/audio/sun_tzu_ch3.mp3''),
       (''text'', PStr (''So, too, it is better to recapture an army entire than to destroy it, '' @
                        ''to capture a regiment, a detachment or a company entire than to '' @
                        ''destroy them.'')),
       (''created_at'', PStr (isoformat (now 4 - timedelta 3 2))),
       (''metadata'', PDict [(''chapter'', PInt 3), (''duration'', PFloat 283 (- 1))])]]"

text \<open>\<^verbatim>\<open>__post_init__\<close>: an empty (falsy) list is replaced by the sample data.\<close>

definition post_init ::
  "(int \<Rightarrow> string) \<Rightarrow> (nat \<Rightarrow> int) \<Rightarrow> MockTranscriptionProvider \<Rightarrow> MockTranscriptionProvider" where
  "post_init isoformat now self =
     (if self_records self = []
      then self\<lparr>self_records := generate_sample_data isoformat now\<rparr>
      else self)"

text \<open>
  The constructor the dataclass generates: it stores its three arguments and calls
  \<^verbatim>\<open>__post_init__\<close>. The defaults of the fields are the constants below.
\<close>

definition init ::
  "(int \<Rightarrow> string) \<Rightarrow> (nat \<Rightarrow> int) \<Rightarrow> string \<Rightarrow> string \<Rightarrow> pydict list \<Rightarrow> MockTranscriptionProvider" where
  "init isoformat now i n rs =
     post_init isoformat now \<lparr>self_id = i, self_name = n, self_records = rs\<rparr>"

definition default_id :: string where
  "default_id = ''mock:demo-transcriptions''"

definition default_name :: string where
  "default_name = ''Demo Transcriptions''"

definition default_provider :: "(int \<Rightarrow> string) \<Rightarrow> (nat \<Rightarrow> int) \<Rightarrow> MockTranscriptionProvider" where
  "default_provider isoformat now = init isoformat now default_id default_name []"

section \<open>Predicates the statements use\<close>

text \<open>A stored record carries the key \<^verbatim>\<open>"job_id"\<close>.\<close>

definition has_job_id :: "pydict \<Rightarrow> bool" where
  "has_job_id r = (map_of r ''job_id'' \<noteq> None)"

text \<open>The stored record's \<^verbatim>\<open>"job_id"\<close> equals the string \<open>record_id\<close>.\<close>

definition job_id_is :: "string \<Rightarrow> pydict \<Rightarrow> bool" where
  "job_id_is record_id r = (map_of r ''job_id'' = Some (PStr record_id))"

text \<open>
  What the specification says of a converted record, in its own words: \<open>sr\<close> is the
  \<^verbatim>\<open>SourceRecord\<close> of the stored record \<open>r\<close> when its \<^verbatim>\<open>record_id\<close> is the stored
  \<^verbatim>\<open>"job_id"\<close>, its other fields are the stored values of \<^verbatim>\<open>"audio_path"\<close>,
  \<^verbatim>\<open>"text"\<close>, \<^verbatim>\<open>"metadata"\<close> and \<^verbatim>\<open>"created_at"\<close> with the defaults \<^verbatim>\<open>""\<close>, \<^verbatim>\<open>""\<close>,
  \<^verbatim>\<open>{}\<close> and \<^verbatim>\<open>""\<close>, and its \<^verbatim>\<open>provider_id\<close> is the provider's \<^verbatim>\<open>_id\<close>.
\<close>

definition is_source_record_of ::
  "MockTranscriptionProvider \<Rightarrow> pydict \<Rightarrow> SourceRecord \<Rightarrow> bool" where
  "is_source_record_of self r sr =
     (map_of r ''job_id'' = Some (sr_record_id sr) \<and>
      sr_media_path sr = (case map_of r ''audio_path'' of None \<Rightarrow> PStr '''' | Some v \<Rightarrow> v) \<and>
      sr_text sr = (case map_of r ''text'' of None \<Rightarrow> PStr '''' | Some v \<Rightarrow> v) \<and>
      sr_metadata sr = (case map_of r ''metadata'' of None \<Rightarrow> PDict [] | Some v \<Rightarrow> v) \<and>
      sr_created_at sr = (case map_of r ''created_at'' of None \<Rightarrow> PStr '''' | Some v \<Rightarrow> v) \<and>
      sr_provider_id sr = self_id self)"

text \<open>
  Likewise for a \<^verbatim>\<open>SourceBlock\<close>: \<^verbatim>\<open>id\<close> is the stored \<^verbatim>\<open>"job_id"\<close>, \<^verbatim>\<open>provider_id\<close> the
  provider's \<^verbatim>\<open>_id\<close>, and \<^verbatim>\<open>text\<close>, \<^verbatim>\<open>media_path\<close> and \<^verbatim>\<open>metadata\<close> the stored values
  (the code's defaults for an absent key are \<^verbatim>\<open>""\<close>, \<^verbatim>\<open>None\<close> and \<^verbatim>\<open>{}\<close>).
\<close>

definition is_source_block_of ::
  "MockTranscriptionProvider \<Rightarrow> pydict \<Rightarrow> SourceBlock \<Rightarrow> bool" where
  "is_source_block_of self r b =
     (map_of r ''job_id'' = Some (sb_id b) \<and>
      sb_provider_id b = self_id self \<and>
      sb_text b = (case map_of r ''text'' of None \<Rightarrow> PStr '''' | Some v \<Rightarrow> v) \<and>
      sb_media_path b = (case map_of r ''audio_path'' of None \<Rightarrow> PNone | Some v \<Rightarrow> v) \<and>
      sb_metadata b = (case map_of r ''metadata'' of None \<Rightarrow> PDict [] | Some v \<Rightarrow> v))"

section \<open>The accessors on an explicit store\<close>

text \<open>
  Python lists, dictionaries and class instances are mutable objects that are passed by
  reference: \<^verbatim>\<open>rec.get("metadata", {})\<close> hands the stored dictionary itself to the new
  \<^verbatim>\<open>SourceRecord\<close>. To say what a call writes, the two accessors are given a second
  time over a store of objects. A value is a scalar or a reference to an object; the
  store is the list of the objects allocated so far, and an address is a position in it.
\<close>

type_synonym addr = nat

datatype hval =
    HNone
  | HBool bool
  | HInt int
  | HFloat int int
  | HStr string
  | HRef addr

text \<open>
  The objects: a dictionary, a list, a \<^verbatim>\<open>MockTranscriptionProvider\<close> with its fields
  \<^verbatim>\<open>_id\<close>, \<^verbatim>\<open>_name\<close>, \<^verbatim>\<open>_records\<close>, a \<^verbatim>\<open>SourceRecord\<close> with \<^verbatim>\<open>record_id\<close>,
  \<^verbatim>\<open>media_path\<close>, \<^verbatim>\<open>text\<close>, \<^verbatim>\<open>metadata\<close>, \<^verbatim>\<open>created_at\<close>, \<^verbatim>\<open>provider_id\<close>, and a
  \<^verbatim>\<open>SourceBlock\<close> with \<^verbatim>\<open>id\<close>, \<^verbatim>\<open>provider_id\<close>, \<^verbatim>\<open>text\<close>, \<^verbatim>\<open>media_path\<close>, \<^verbatim>\<open>metadata\<close>.
\<close>

datatype obj =
    ODict "(string \<times> hval) list"
  | OList "hval list"
  | OProvider hval hval hval
  | OSourceRecord hval hval hval hval hval hval
  | OSourceBlock hval hval hval hval hval

type_synonym heap = "obj list"

text \<open>
  \<open>IllTyped\<close> stands for the \<^verbatim>\<open>TypeError\<close> or \<^verbatim>\<open>AttributeError\<close> Python raises when an
  object is not of the class the annotations promise (a stored record that is not a
  dictionary, a \<^verbatim>\<open>_records\<close> that is not a list); a reference to no object is treated
  the same way.
\<close>

datatype heap_error = HKeyError string | IllTyped

definition heap_lookup :: "heap \<Rightarrow> addr \<Rightarrow> obj option" where
  "heap_lookup h a = (if a < length h then Some (h ! a) else None)"

text \<open>A new object gets the next address.\<close>

definition alloc :: "heap \<Rightarrow> obj \<Rightarrow> addr \<times> heap" where
  "alloc h ob = (length h, h @ [ob])"

definition get_dict :: "heap \<Rightarrow> hval \<Rightarrow> heap_error + (string \<times> hval) list" where
  "get_dict h v =
     (case v of
        HRef a \<Rightarrow> (case heap_lookup h a of Some (ODict kvs) \<Rightarrow> Inr kvs | _ \<Rightarrow> Inl IllTyped)
      | _ \<Rightarrow> Inl IllTyped)"

definition get_list :: "heap \<Rightarrow> hval \<Rightarrow> heap_error + hval list" where
  "get_list h v =
     (case v of
        HRef a \<Rightarrow> (case heap_lookup h a of Some (OList vs) \<Rightarrow> Inr vs | _ \<Rightarrow> Inl IllTyped)
      | _ \<Rightarrow> Inl IllTyped)"

definition get_provider :: "heap \<Rightarrow> addr \<Rightarrow> heap_error + hval \<times> hval \<times> hval" where
  "get_provider h self =
     (case heap_lookup h self of
        Some (OProvider pid pname precords) \<Rightarrow> Inr (pid, pname, precords)
      | _ \<Rightarrow> Inl IllTyped)"

text \<open>\<^verbatim>\<open>d.get(k, default)\<close> on the items of a dictionary object.\<close>

definition heap_dict_get :: "(string \<times> hval) list \<Rightarrow> string \<Rightarrow> hval \<Rightarrow> hval" where
  "heap_dict_get kvs k dflt = (case map_of kvs k of None \<Rightarrow> dflt | Some v \<Rightarrow> v)"

text \<open>\<^verbatim>\<open>xs.append(v)\<close>: the list object at \<open>a\<close> is overwritten in place.\<close>

definition list_append :: "heap \<Rightarrow> addr \<Rightarrow> hval \<Rightarrow> heap_error + heap" where
  "list_append h a v =
     (case heap_lookup h a of
        Some (OList vs) \<Rightarrow> Inr (h[a := OList (vs @ [v])])
      | _ \<Rightarrow> Inl IllTyped)"

text \<open>\<^verbatim>\<open>v == s\<close> for a string \<open>s\<close>.\<close>

fun heap_eq_str :: "hval \<Rightarrow> string \<Rightarrow> bool" where
  "heap_eq_str (HStr t) s = (t = s)"
| "heap_eq_str v s = False"

text \<open>
  One turn of the loop of \<^verbatim>\<open>query_records\<close>, in the order Python evaluates it:
  \<^verbatim>\<open>rec["job_id"]\<close>, the two \<^verbatim>\<open>.get\<close> calls, the literal \<^verbatim>\<open>{}\<close> (a new dictionary,
  whether or not it is used), the other \<^verbatim>\<open>.get\<close> calls, \<^verbatim>\<open>self._id\<close>, the constructor (a
  new object) and \<^verbatim>\<open>records.append\<close>.
\<close>

definition query_records_heap_step ::
  "addr \<Rightarrow> hval \<Rightarrow> addr \<Rightarrow> heap \<Rightarrow> (heap_error + unit) \<times> heap" where
  "query_records_heap_step self r records h =
     (case get_dict h r of
        Inl e \<Rightarrow> (Inl e, h)
      | Inr kvs \<Rightarrow>
          (case map_of kvs ''job_id'' of
             None \<Rightarrow> (Inl (HKeyError ''job_id''), h)
           | Some job_id \<Rightarrow>
               (case alloc h (ODict []) of
                  (d, h1) \<Rightarrow>
                    (case get_provider h1 self of
                       Inl e \<Rightarrow> (Inl e, h1)
                     | Inr (pid, pname, precords) \<Rightarrow>
                         (case alloc h1
                                 (OSourceRecord job_id
                                    (heap_dict_get kvs ''audio_path'' (HStr ''''))
                                    (heap_dict_get kvs ''text'' (HStr ''''))
                                    (heap_dict_get kvs ''metadata'' (HRef d))
                                    (heap_dict_get kvs ''created_at'' (HStr ''''))
                                    pid) of
                            (sr, h2) \<Rightarrow>
                              (case list_append h2 records (HRef sr) of
                                 Inl e \<Rightarrow> (Inl e, h2)
                               | Inr h3 \<Rightarrow> (Inr (), h3)))))))"

fun query_records_heap_loop ::
  "addr \<Rightarrow> hval list \<Rightarrow> addr \<Rightarrow> heap \<Rightarrow> (heap_error + unit) \<times> heap" where
  "query_records_heap_loop self [] records h = (Inr (), h)"
| "query_records_heap_loop self (r # rest) records h =
     (case query_records_heap_step self r records h of
        (Inl e, h') \<Rightarrow> (Inl e, h')
      | (Inr u, h') \<Rightarrow> query_records_heap_loop self rest records h')"

text \<open>
  \<^verbatim>\<open>query_records\<close>: \<^verbatim>\<open>records = []\<close> is a new list, the slice \<^verbatim>\<open>self._records[:limit]\<close> is
  another new list, and the call returns the reference to \<^verbatim>\<open>records\<close>. When the call
  raises, the store is the one reached at that point.
\<close>

definition query_records_heap :: "heap \<Rightarrow> addr \<Rightarrow> int \<Rightarrow> (heap_error + hval) \<times> heap" where
  "query_records_heap h self limit =
     (case alloc h (OList []) of
        (records, h1) \<Rightarrow>
          (case get_provider h1 self of
             Inl e \<Rightarrow> (Inl e, h1)
           | Inr (pid, pname, precords) \<Rightarrow>
               (case get_list h1 precords of
                  Inl e \<Rightarrow> (Inl e, h1)
                | Inr elems \<Rightarrow>
                    (case alloc h1 (OList (slice_to elems limit)) of
                       (sliced, h2) \<Rightarrow>
                         (case query_records_heap_loop self (slice_to elems limit) records h2 of
                            (Inl e, h3) \<Rightarrow> (Inl e, h3)
                          | (Inr u, h3) \<Rightarrow> (Inr (HRef records), h3))))))"

text \<open>
  The loop of \<^verbatim>\<open>get_source_block\<close>. On a match the arguments are evaluated in the order
  \<^verbatim>\<open>rec["job_id"]\<close>, \<^verbatim>\<open>self._id\<close>, the two \<^verbatim>\<open>.get\<close> calls, the literal \<^verbatim>\<open>{}\<close> and the last
  \<^verbatim>\<open>.get\<close>; the new \<^verbatim>\<open>SourceBlock\<close> is returned by reference.
\<close>

fun get_source_block_heap_loop ::
  "addr \<Rightarrow> hval list \<Rightarrow> string \<Rightarrow> heap \<Rightarrow> (heap_error + hval) \<times> heap" where
  "get_source_block_heap_loop self [] record_id h = (Inr HNone, h)"
| "get_source_block_heap_loop self (r # rest) record_id h =
     (case get_dict h r of
        Inl e \<Rightarrow> (Inl e, h)
      | Inr kvs \<Rightarrow>
          (case map_of kvs ''job_id'' of
             None \<Rightarrow> (Inl (HKeyError ''job_id''), h)
           | Some v \<Rightarrow>
               if heap_eq_str v record_id
               then (case map_of kvs ''job_id'' of
                       None \<Rightarrow> (Inl (HKeyError ''job_id''), h)
                     | Some job_id \<Rightarrow>
                         (case get_provider h self of
                            Inl e \<Rightarrow> (Inl e, h)
                          | Inr (pid, pname, precords) \<Rightarrow>
                              (case alloc h (ODict []) of
                                 (d, h1) \<Rightarrow>
                                   (case alloc h1
                                           (OSourceBlock job_id pid
                                              (heap_dict_get kvs ''text'' (HStr ''''))
                                              (heap_dict_get kvs ''audio_path'' HNone)
                                              (heap_dict_get kvs ''metadata'' (HRef d))) of
                                      (sb, h2) \<Rightarrow> (Inr (HRef sb), h2)))))
               else get_source_block_heap_loop self rest record_id h))"

definition get_source_block_heap ::
  "heap \<Rightarrow> addr \<Rightarrow> string \<Rightarrow> (heap_error + hval) \<times> heap" where
  "get_source_block_heap h self record_id =
     (case get_provider h self of
        Inl e \<Rightarrow> (Inl e, h)
      | Inr (pid, pname, precords) \<Rightarrow>
          (case get_list h precords of
             Inl e \<Rightarrow> (Inl e, h)
           | Inr elems \<Rightarrow> get_source_block_heap_loop self elems record_id h))"

text \<open>
  Reading a value of the store back as a Python value, following references to
  dictionaries and lists at most \<open>n\<close> deep (\<open>None\<close> when the structure is deeper, or is
  not made of dictionaries, lists and scalars).
\<close>

fun read_val :: "nat \<Rightarrow> heap \<Rightarrow> hval \<Rightarrow> pyval option"
  and read_items :: "nat \<Rightarrow> heap \<Rightarrow> (string \<times> hval) list \<Rightarrow> (string \<times> pyval) list option"
  and read_list :: "nat \<Rightarrow> heap \<Rightarrow> hval list \<Rightarrow> pyval list option" where
  "read_val n h HNone = Some PNone"
| "read_val n h (HBool b) = Some (PBool b)"
| "read_val n h (HInt i) = Some (PInt i)"
| "read_val n h (HFloat m e) = Some (PFloat m e)"
| "read_val n h (HStr s) = Some (PStr s)"
| "read_val 0 h (HRef a) = None"
| "read_val (Suc n) h (HRef a) =
     (case heap_lookup h a of
        Some (ODict kvs) \<Rightarrow> map_option PDict (read_items n h kvs)
      | Some (OList vs) \<Rightarrow> map_option PList (read_list n h vs)
      | _ \<Rightarrow> None)"
| "read_items n h [] = Some []"
| "read_items n h ((k, v) # kvs) =
     (case read_val n h v of
        None \<Rightarrow> None
      | Some pv \<Rightarrow> map_option ((#) (k, pv)) (read_items n h kvs))"
| "read_list n h [] = Some []"
| "read_list n h (v # vs) =
     (case read_val n h v of
        None \<Rightarrow> None
      | Some pv \<Rightarrow> map_option ((#) pv) (read_list n h vs))"

text \<open>The provider's \<^verbatim>\<open>_records\<close> field, read back: a list of dictionaries.\<close>

definition read_records :: "nat \<Rightarrow> heap \<Rightarrow> addr \<Rightarrow> pyval option" where
  "read_records n h self =
     (case get_provider h self of
        Inl e \<Rightarrow> None
      | Inr (pid, pname, precords) \<Rightarrow> read_val n h precords)"

text \<open>
  A \<^verbatim>\<open>SourceRecord\<close> or \<^verbatim>\<open>SourceBlock\<close> object of the store, read back as the record of
  its fields.
\<close>

definition read_source_record :: "nat \<Rightarrow> heap \<Rightarrow> hval \<Rightarrow> SourceRecord option" where
  "read_source_record n h v =
     (case v of
        HRef a \<Rightarrow>
          (case heap_lookup h a of
             Some (OSourceRecord f1 f2 f3 f4 f5 f6) \<Rightarrow>
               Option.bind (read_val n h f1) (\<lambda>p1.
               Option.bind (read_val n h f2) (\<lambda>p2.
               Option.bind (read_val n h f3) (\<lambda>p3.
               Option.bind (read_val n h f4) (\<lambda>p4.
               Option.bind (read_val n h f5) (\<lambda>p5.
                 (case f6 of
                    HStr s \<Rightarrow>
                      Some \<lparr>sr_record_id = p1, sr_media_path = p2, sr_text = p3,
                            sr_metadata = p4, sr_created_at = p5, sr_provider_id = s\<rparr>
                  | _ \<Rightarrow> None))))))
           | _ \<Rightarrow> None)
      | _ \<Rightarrow> None)"

definition read_source_block :: "nat \<Rightarrow> heap \<Rightarrow> hval \<Rightarrow> SourceBlock option" where
  "read_source_block n h v =
     (case v of
        HRef a \<Rightarrow>
          (case heap_lookup h a of
             Some (OSourceBlock f1 f2 f3 f4 f5) \<Rightarrow>
               Option.bind (read_val n h f1) (\<lambda>p1.
               Option.bind (read_val n h f3) (\<lambda>p3.
               Option.bind (read_val n h f4) (\<lambda>p4.
               Option.bind (read_val n h f5) (\<lambda>p5.
                 (case f2 of
                    HStr s \<Rightarrow>
                      Some \<lparr>sb_id = p1, sb_provider_id = s, sb_text = p3,
                            sb_media_path = p4, sb_metadata = p5\<rparr>
                  | _ \<Rightarrow> None)))))
           | _ \<Rightarrow> None)
      | _ \<Rightarrow> None)"

text \<open>Both relations determine the converted value: its fields are all fixed.\<close>

lemma is_source_record_of_unique:
  "is_source_record_of self r a \<Longrightarrow> is_source_record_of self r b \<Longrightarrow> a = b"
  by (cases a, cases b) (simp add: is_source_record_of_def)

lemma is_source_block_of_unique:
  "is_source_block_of self r a \<Longrightarrow> is_source_block_of self r b \<Longrightarrow> a = b"
  by (cases a, cases b) (simp add: is_source_block_of_def)

section \<open>Slices\<close>

lemma slice_to_nonneg: "0 \<le> stop \<Longrightarrow> slice_to xs stop = take (nat stop) xs"
  by (simp add: slice_to_def Let_def)

lemma slice_to_neg: "stop < 0 \<Longrightarrow> slice_to xs stop = take (length xs - nat (- stop)) xs"
proof -
  assume neg: "stop < 0"
  have "nat (if int (length xs) + stop < 0 then 0 else int (length xs) + stop)
          = length xs - nat (- stop)"
    using neg by auto
  then show ?thesis
    using neg by (simp add: slice_to_def Let_def)
qed

lemma length_slice_to_nonneg:
  "0 \<le> stop \<Longrightarrow> length (slice_to xs stop) = min (nat stop) (length xs)"
  by (simp add: slice_to_nonneg min.commute)

lemma take_min_length: "take (min n (length xs)) xs = take n xs"
  by (cases "n \<le> length xs") (simp_all add: min_def)

section \<open>The loop of \<^verbatim>\<open>query_records\<close>\<close>

lemma getitem_job_id_Some: "map_of r ''job_id'' = Some v \<Longrightarrow> getitem r ''job_id'' = Inr v"
  by (simp add: getitem_def)

lemma getitem_job_id_None:
  "\<not> has_job_id r \<Longrightarrow> getitem r ''job_id'' = Inl (KeyError ''job_id'')"
  by (simp add: getitem_def has_job_id_def)

lemma query_records_loop_ok:
  "list_all has_job_id rs \<Longrightarrow>
   \<exists>out. query_records_loop self rs records = Inr (records @ out) \<and>
         list_all2 (is_source_record_of self) rs out"
proof (induction rs arbitrary: records)
  case Nil
  then show ?case by simp
next
  case (Cons r rs)
  from Cons.prems obtain v where v: "map_of r ''job_id'' = Some v"
    by (auto simp: has_job_id_def)
  define sr where "sr =
    \<lparr>sr_record_id = v,
      sr_media_path = dict_get r ''audio_path'' (PStr ''''),
      sr_text = dict_get r ''text'' (PStr ''''),
      sr_metadata = dict_get r ''metadata'' (PDict []),
      sr_created_at = dict_get r ''created_at'' (PStr ''''),
      sr_provider_id = self_id self\<rparr>"
  have step: "query_records_loop self (r # rs) records
                = query_records_loop self rs (records @ [sr])"
    by (simp add: getitem_job_id_Some [OF v] sr_def)
  have conv: "is_source_record_of self r sr"
    by (simp add: is_source_record_of_def sr_def v dict_get_def)
  from Cons.prems have "list_all has_job_id rs" by simp
  from Cons.IH [OF this, of "records @ [sr]"] obtain out where
    out: "query_records_loop self rs (records @ [sr]) = Inr ((records @ [sr]) @ out)"
         "list_all2 (is_source_record_of self) rs out"
    by blast
  have "query_records_loop self (r # rs) records = Inr (records @ (sr # out))"
    using step out(1) by simp
  moreover have "list_all2 (is_source_record_of self) (r # rs) (sr # out)"
    using conv out(2) by simp
  ultimately show ?case by blast
qed

lemma query_records_loop_err:
  "\<not> list_all has_job_id rs \<Longrightarrow>
   query_records_loop self rs records = Inl (KeyError ''job_id'')"
proof (induction rs arbitrary: records)
  case Nil
  then show ?case by simp
next
  case (Cons r rs)
  show ?case
  proof (cases "has_job_id r")
    case False
    then show ?thesis by (simp add: getitem_job_id_None)
  next
    case True
    then obtain v where v: "map_of r ''job_id'' = Some v"
      by (auto simp: has_job_id_def)
    from True Cons.prems have "\<not> list_all has_job_id rs" by simp
    from Cons.IH [OF this] show ?thesis
      by (simp add: getitem_job_id_Some [OF v])
  qed
qed

lemma query_records_ok:
  assumes "list_all has_job_id (slice_to (self_records self) limit)"
  shows "\<exists>out. fst (query_records self limit) = Inr out \<and>
           list_all2 (is_source_record_of self) (slice_to (self_records self) limit) out"
  using query_records_loop_ok [OF assms, of self "[]"] by (simp add: query_records_def)

lemma query_records_err:
  assumes "\<not> list_all has_job_id (slice_to (self_records self) limit)"
  shows "fst (query_records self limit) = Inl (KeyError ''job_id'')"
  using query_records_loop_err [OF assms] by (simp add: query_records_def)

lemma query_records_Inr_length:
  assumes "fst (query_records self limit) = Inr out"
  shows "length out = length (slice_to (self_records self) limit)"
proof (cases "list_all has_job_id (slice_to (self_records self) limit)")
  case True
  from query_records_ok [OF True] assms show ?thesis
    by (auto dest: list_all2_lengthD)
next
  case False
  from query_records_err [OF False] assms show ?thesis by simp
qed

section \<open>The loop of \<^verbatim>\<open>get_source_block\<close>\<close>

lemma py_eq_str_iff: "py_eq_str v s \<longleftrightarrow> v = PStr s"
  by (cases v) auto

lemma get_source_block_loop_ok:
  "list_all has_job_id (takeWhile (\<lambda>r. \<not> job_id_is record_id r) rs) \<Longrightarrow>
   (case find (job_id_is record_id) rs of
      None \<Rightarrow> get_source_block_loop self rs record_id = Inr None
    | Some r \<Rightarrow>
        \<exists>b. get_source_block_loop self rs record_id = Inr (Some b) \<and>
            is_source_block_of self r b \<and> sb_id b = PStr record_id)"
proof (induction rs)
  case Nil
  then show ?case by simp
next
  case (Cons r rs)
  show ?case
  proof (cases "job_id_is record_id r")
    case True
    then show ?thesis
      by (simp add: job_id_is_def getitem_def is_source_block_of_def dict_get_def)
  next
    case False
    with Cons.prems have r: "has_job_id r"
      and rest: "list_all has_job_id (takeWhile (\<lambda>r. \<not> job_id_is record_id r) rs)"
      by simp_all
    from r obtain v where v: "map_of r ''job_id'' = Some v"
      by (auto simp: has_job_id_def)
    with False have "v \<noteq> PStr record_id"
      by (simp add: job_id_is_def)
    then have step: "get_source_block_loop self (r # rs) record_id
                       = get_source_block_loop self rs record_id"
      by (simp add: getitem_job_id_Some [OF v] py_eq_str_iff)
    from False have skip: "find (job_id_is record_id) (r # rs) = find (job_id_is record_id) rs"
      by simp
    show ?thesis
      unfolding step skip by (rule Cons.IH [OF rest])
  qed
qed

lemma get_source_block_loop_err:
  "\<not> list_all has_job_id (takeWhile (\<lambda>r. \<not> job_id_is record_id r) rs) \<Longrightarrow>
   get_source_block_loop self rs record_id = Inl (KeyError ''job_id'')"
proof (induction rs)
  case Nil
  then show ?case by simp
next
  case (Cons r rs)
  show ?case
  proof (cases "has_job_id r")
    case False
    then show ?thesis by (simp add: getitem_job_id_None)
  next
    case True
    then obtain v where v: "map_of r ''job_id'' = Some v"
      by (auto simp: has_job_id_def)
    from Cons.prems have nomatch: "\<not> job_id_is record_id r"
      by (cases "job_id_is record_id r") simp_all
    with True Cons.prems
    have "\<not> list_all has_job_id (takeWhile (\<lambda>r. \<not> job_id_is record_id r) rs)"
      by simp
    from Cons.IH [OF this] nomatch v show ?thesis
      by (simp add: getitem_job_id_Some [OF v] py_eq_str_iff job_id_is_def)
  qed
qed

lemma get_source_block_loop_total:
  "list_all has_job_id rs \<Longrightarrow> \<exists>res. get_source_block_loop self rs record_id = Inr res"
proof -
  assume all: "list_all has_job_id rs"
  have "set (takeWhile (\<lambda>r. \<not> job_id_is record_id r) rs) \<subseteq> set rs"
    by (auto dest: set_takeWhileD)
  with all have "list_all has_job_id (takeWhile (\<lambda>r. \<not> job_id_is record_id r) rs)"
    by (auto simp: list_all_iff)
  from get_source_block_loop_ok [OF this, of self] show ?thesis
    by (cases "find (job_id_is record_id) rs") auto
qed

section \<open>The loops read the provider's \<^verbatim>\<open>_id\<close> only\<close>

lemma query_records_loop_cong:
  "self_id p = self_id q \<Longrightarrow> query_records_loop p rs records = query_records_loop q rs records"
  by (induction rs arbitrary: records) (simp_all split: sum.splits)

lemma get_source_block_loop_cong:
  "self_id p = self_id q \<Longrightarrow>
   get_source_block_loop p rs record_id = get_source_block_loop q rs record_id"
  by (induction rs) (simp_all split: sum.splits)

section \<open>The sample data\<close>

lemma generate_sample_data_has_job_id:
  "list_all has_job_id (generate_sample_data isoformat now)"
  by (simp add: generate_sample_data_def has_job_id_def)

lemma length_generate_sample_data: "length (generate_sample_data isoformat now) = 5"
  by (simp add: generate_sample_data_def)

lemma self_records_default_provider:
  "self_records (default_provider isoformat now) = generate_sample_data isoformat now"
  by (simp add: default_provider_def init_def post_init_def)

section \<open>Claims about \<^verbatim>\<open>query_records\<close>\<close>

text \<open>
  Claim C1 does not hold for every provider state: \<^verbatim>\<open>rec["job_id"]\<close> raises
  \<^verbatim>\<open>KeyError\<close> on a stored record without that key. With one stored record that has
  only \<^verbatim>\<open>"audio_path"\<close> and \<^verbatim>\<open>"text"\<close>, \<^verbatim>\<open>query_records(1)\<close> raises instead of
  returning a list of one \<^verbatim>\<open>SourceRecord\<close>.
\<close>

theorem query_records_missing_job_id_counterexample:
  "fst (query_records
         \<lparr>self_id = ''mock:demo-transcriptions'', self_name = ''Demo Transcriptions'',
          self_records = [[(''audio_path'', PStr ''/audio/a.mp3''), (''text'', PStr ''hello'')]]\<rparr>
         1)
     = Inl (KeyError ''job_id'')"
  by (simp add: query_records_def slice_to_def getitem_def)

text \<open>
  Claim C1, as amended: for every non-negative integer limit and every provider state in
  which each of the first \<open>min(limit, len(_records))\<close> stored records has the key
  \<^verbatim>\<open>"job_id"\<close>, \<^verbatim>\<open>query_records(limit)\<close> returns exactly those records, in their stored
  order, each converted to a \<^verbatim>\<open>SourceRecord\<close> whose \<^verbatim>\<open>record_id\<close> is the stored
  \<^verbatim>\<open>"job_id"\<close>, whose \<^verbatim>\<open>media_path\<close>, \<^verbatim>\<open>text\<close>, \<^verbatim>\<open>metadata\<close> and \<^verbatim>\<open>created_at\<close> are the
  stored values (defaulting to \<^verbatim>\<open>""\<close>, \<^verbatim>\<open>""\<close>, \<^verbatim>\<open>{}\<close> and \<^verbatim>\<open>""\<close>) and whose
  \<^verbatim>\<open>provider_id\<close> is the provider's \<^verbatim>\<open>_id\<close>; when one of those records lacks the key,
  the call raises \<^verbatim>\<open>KeyError('job_id')\<close>.
\<close>

theorem query_records_returns_first_records:
  assumes "0 \<le> limit"
  shows "(list_all has_job_id (take (nat limit) (self_records self)) \<longrightarrow>
            (\<exists>out. fst (query_records self limit) = Inr out \<and>
                   length out = min (nat limit) (length (self_records self)) \<and>
                   list_all2 (is_source_record_of self)
                     (take (min (nat limit) (length (self_records self))) (self_records self))
                     out)) \<and>
         (\<not> list_all has_job_id (take (nat limit) (self_records self)) \<longrightarrow>
            fst (query_records self limit) = Inl (KeyError ''job_id''))"
proof (intro conjI impI)
  assume ok: "list_all has_job_id (take (nat limit) (self_records self))"
  then have "list_all has_job_id (slice_to (self_records self) limit)"
    using assms by (simp add: slice_to_nonneg)
  from query_records_ok [OF this] obtain out where
    out: "fst (query_records self limit) = Inr out"
         "list_all2 (is_source_record_of self) (slice_to (self_records self) limit) out"
    by blast
  from out(2) have conv:
    "list_all2 (is_source_record_of self)
       (take (min (nat limit) (length (self_records self))) (self_records self)) out"
    using assms by (simp add: slice_to_nonneg take_min_length)
  from list_all2_lengthD [OF out(2)]
  have len: "length out = min (nat limit) (length (self_records self))"
    using assms by (simp add: length_slice_to_nonneg)
  from out(1) len conv
  show "\<exists>out. fst (query_records self limit) = Inr out \<and>
              length out = min (nat limit) (length (self_records self)) \<and>
              list_all2 (is_source_record_of self)
                (take (min (nat limit) (length (self_records self))) (self_records self)) out"
    by blast
next
  assume "\<not> list_all has_job_id (take (nat limit) (self_records self))"
  then have "\<not> list_all has_job_id (slice_to (self_records self) limit)"
    using assms by (simp add: slice_to_nonneg)
  then show "fst (query_records self limit) = Inl (KeyError ''job_id'')"
    by (rule query_records_err)
qed

theorem query_records_returns_first_records_witness:
  "(0::int) \<le> 1 \<and>
   list_all has_job_id
     (take (nat 1)
        (self_records
           \<lparr>self_id = ''p1'', self_name = ''P'',
            self_records = [[(''job_id'', PStr ''a''), (''text'', PStr ''hello'')],
                            [(''job_id'', PStr ''b'')]]\<rparr>)) \<and>
   (\<exists>out. fst (query_records
                 \<lparr>self_id = ''p1'', self_name = ''P'',
                  self_records = [[(''job_id'', PStr ''a''), (''text'', PStr ''hello'')],
                                  [(''job_id'', PStr ''b'')]]\<rparr> 1) = Inr out \<and>
          length out = 1 \<and>
          list_all2
            (is_source_record_of
               \<lparr>self_id = ''p1'', self_name = ''P'',
                self_records = [[(''job_id'', PStr ''a''), (''text'', PStr ''hello'')],
                                [(''job_id'', PStr ''b'')]]\<rparr>)
            [[(''job_id'', PStr ''a''), (''text'', PStr ''hello'')]] out) \<and>
   \<not> list_all has_job_id
       (take (nat 1)
          (self_records
             \<lparr>self_id = ''p1'', self_name = ''P'',
              self_records = [[(''text'', PStr ''hello'')], [(''job_id'', PStr ''b'')]]\<rparr>)) \<and>
   fst (query_records
          \<lparr>self_id = ''p1'', self_name = ''P'',
           self_records = [[(''text'', PStr ''hello'')], [(''job_id'', PStr ''b'')]]\<rparr> 1)
     = Inl (KeyError ''job_id'')"
proof -
  have h: "(0::int) \<le> 1" by simp
  show ?thesis
    using query_records_returns_first_records [OF h, of
        "\<lparr>self_id = ''p1'', self_name = ''P'',
          self_records = [[(''job_id'', PStr ''a''), (''text'', PStr ''hello'')],
                          [(''job_id'', PStr ''b'')]]\<rparr>"]
      query_records_returns_first_records [OF h, of
        "\<lparr>self_id = ''p1'', self_name = ''P'',
          self_records = [[(''text'', PStr ''hello'')], [(''job_id'', PStr ''b'')]]\<rparr>"]
    by (simp add: has_job_id_def)
qed

text \<open>
  Claim C6 does not hold for a negative limit: on two stored records
  \<^verbatim>\<open>query_records(-1)\<close> returns one record, and one is not at most \<open>-1\<close>.
\<close>

theorem query_records_length_negative_limit_counterexample:
  "fst (query_records
         \<lparr>self_id = ''p1'', self_name = ''P'',
          self_records = [[(''job_id'', PStr ''a'')], [(''job_id'', PStr ''b'')]]\<rparr>
         (- 1))
     = Inr [\<lparr>sr_record_id = PStr ''a'', sr_media_path = PStr '''', sr_text = PStr '''',
             sr_metadata = PDict [], sr_created_at = PStr '''', sr_provider_id = ''p1''\<rparr>] \<and>
   \<not> int (length
           [\<lparr>sr_record_id = PStr ''a'', sr_media_path = PStr '''', sr_text = PStr '''',
             sr_metadata = PDict [], sr_created_at = PStr '''', sr_provider_id = ''p1''\<rparr>])
       \<le> - 1"
  by (simp add: query_records_def slice_to_def getitem_def dict_get_def)

text \<open>
  Claim C6, as amended: for every non-negative integer limit, the list returned by
  \<^verbatim>\<open>query_records(limit)\<close> has length at most \<open>limit\<close>; and a list is returned whenever
  each of the first \<open>limit\<close> stored records has the key \<^verbatim>\<open>"job_id"\<close>.
\<close>

theorem query_records_length_le_limit:
  assumes "0 \<le> limit"
  shows "(\<forall>out. fst (query_records self limit) = Inr out \<longrightarrow> int (length out) \<le> limit) \<and>
         (list_all has_job_id (take (nat limit) (self_records self)) \<longrightarrow>
            (\<exists>out. fst (query_records self limit) = Inr out \<and> int (length out) \<le> limit))"
proof -
  have bound: "int (length out) \<le> limit" if "fst (query_records self limit) = Inr out" for out
  proof -
    from query_records_Inr_length [OF that]
    have "length out = min (nat limit) (length (self_records self))"
      using assms by (simp add: length_slice_to_nonneg)
    with assms show ?thesis by simp
  qed
  have returns: "\<exists>out. fst (query_records self limit) = Inr out"
    if "list_all has_job_id (take (nat limit) (self_records self))"
  proof -
    from that assms have "list_all has_job_id (slice_to (self_records self) limit)"
      by (simp add: slice_to_nonneg)
    from query_records_ok [OF this] show ?thesis by blast
  qed
  from bound returns show ?thesis by blast
qed

theorem query_records_length_le_limit_witness:
  "(0::int) \<le> 1 \<and>
   list_all has_job_id
     (take (nat 1)
        (self_records
           \<lparr>self_id = ''p1'', self_name = ''P'',
            self_records = [[(''job_id'', PStr ''a'')], [(''job_id'', PStr ''b'')]]\<rparr>)) \<and>
   (\<exists>out. fst (query_records
                 \<lparr>self_id = ''p1'', self_name = ''P'',
                  self_records = [[(''job_id'', PStr ''a'')], [(''job_id'', PStr ''b'')]]\<rparr> 1)
             = Inr out \<and>
          int (length out) \<le> 1)"
proof -
  have h: "(0::int) \<le> 1" by simp
  show ?thesis
    using query_records_length_le_limit [OF h, of
        "\<lparr>self_id = ''p1'', self_name = ''P'',
          self_records = [[(''job_id'', PStr ''a'')], [(''job_id'', PStr ''b'')]]\<rparr>"]
    by (simp add: has_job_id_def)
qed

text \<open>
  A negative limit \<open>-k\<close> with \<open>k \<ge> len(_records)\<close> leaves nothing of the slice: the
  call returns the empty list.
\<close>

lemma query_records_limit_beyond_length:
  assumes "0 < k" and "int (length (self_records self)) \<le> k"
  shows "fst (query_records self (- k)) = Inr []"
proof -
  from assms have "slice_to (self_records self) (- k) = []"
    by (simp add: slice_to_neg)
  then show ?thesis by (simp add: query_records_def)
qed

text \<open>
  Claim C9 does not hold for every provider state either: with two stored records that
  have no \<^verbatim>\<open>"job_id"\<close> and \<open>k = 1\<close> (so \<open>0 < k < len(_records)\<close>), \<^verbatim>\<open>query_records(-1)\<close>
  raises \<^verbatim>\<open>KeyError\<close> instead of returning the first stored record.
\<close>

theorem query_records_negative_limit_counterexample:
  "fst (query_records
         \<lparr>self_id = ''p1'', self_name = ''P'',
          self_records = [[(''text'', PStr ''one'')], [(''text'', PStr ''two'')]]\<rparr>
         (- 1))
     = Inl (KeyError ''job_id'')"
  by (simp add: query_records_def slice_to_def getitem_def)

text \<open>
  Claim C9, as amended: for a negative limit \<open>-k\<close> with \<open>0 < k < len(_records)\<close>, when
  each of the first \<open>len(_records) - k\<close> stored records has the key \<^verbatim>\<open>"job_id"\<close>,
  \<^verbatim>\<open>query_records(-k)\<close> returns those first \<open>len(_records) - k\<close> records converted, which
  is not an empty list. On the default provider \<^verbatim>\<open>query_records(-1)\<close> returns four
  records.
\<close>

theorem query_records_negative_limit:
  assumes "0 < k" and "k < int (length (self_records self))"
    and "list_all has_job_id (take (length (self_records self) - nat k) (self_records self))"
  shows "\<exists>out. fst (query_records self (- k)) = Inr out \<and>
               out \<noteq> [] \<and>
               length out = length (self_records self) - nat k \<and>
               list_all2 (is_source_record_of self)
                 (take (length (self_records self) - nat k) (self_records self)) out"
proof -
  have slice: "slice_to (self_records self) (- k)
                 = take (length (self_records self) - nat k) (self_records self)"
    using assms(1) by (simp add: slice_to_neg)
  with assms(3) have "list_all has_job_id (slice_to (self_records self) (- k))"
    by simp
  from query_records_ok [OF this] obtain out where
    out: "fst (query_records self (- k)) = Inr out"
         "list_all2 (is_source_record_of self)
            (take (length (self_records self) - nat k) (self_records self)) out"
    unfolding slice by blast
  from list_all2_lengthD [OF out(2)]
  have len: "length out = length (self_records self) - nat k"
    by simp
  with assms(1,2) have "out \<noteq> []"
    by auto
  with out len show ?thesis by blast
qed

theorem query_records_negative_limit_witness:
  "\<forall>isoformat now.
     (0::int) < 1 \<and>
     1 < int (length (self_records (default_provider isoformat now))) \<and>
     list_all has_job_id
       (take (length (self_records (default_provider isoformat now)) - nat 1)
          (self_records (default_provider isoformat now))) \<and>
     (\<exists>out. fst (query_records (default_provider isoformat now) (- 1)) = Inr out \<and>
            length out = 4)"
proof (intro allI)
  fix isoformat :: "int \<Rightarrow> string" and now :: "nat \<Rightarrow> int"
  let ?p = "default_provider isoformat now"
  have h1: "(0::int) < 1" by simp
  have h2: "1 < int (length (self_records ?p))"
    by (simp add: self_records_default_provider length_generate_sample_data)
  have h3: "list_all has_job_id (take (length (self_records ?p) - nat 1) (self_records ?p))"
    by (simp add: self_records_default_provider generate_sample_data_def has_job_id_def)
  from query_records_negative_limit [OF h1 h2 h3] obtain out where
    "fst (query_records ?p (- 1)) = Inr out" "length out = length (self_records ?p) - nat 1"
    by blast
  then have "\<exists>out. fst (query_records ?p (- 1)) = Inr out \<and> length out = 4"
    by (simp add: self_records_default_provider length_generate_sample_data)
  with h1 h2 h3 show "(0::int) < 1 \<and> 1 < int (length (self_records ?p)) \<and>
     list_all has_job_id (take (length (self_records ?p) - nat 1) (self_records ?p)) \<and>
     (\<exists>out. fst (query_records ?p (- 1)) = Inr out \<and> length out = 4)"
    by blast
qed


section \<open>Claims about \<^verbatim>\<open>get_source_block\<close>\<close>

text \<open>
  Claim C2 does not hold for every provider state: the scan reads \<^verbatim>\<open>rec["job_id"]\<close> of
  each record it passes. With a first stored record that has no \<^verbatim>\<open>"job_id"\<close> and a
  second whose \<^verbatim>\<open>"job_id"\<close> is \<^verbatim>\<open>"a"\<close>, \<^verbatim>\<open>get_source_block("a")\<close> raises \<^verbatim>\<open>KeyError\<close>
  instead of returning the block of the second record.
\<close>

theorem get_source_block_missing_job_id_counterexample:
  "fst (get_source_block
         \<lparr>self_id = ''p1'', self_name = ''P'',
          self_records = [[(''text'', PStr ''one'')],
                          [(''job_id'', PStr ''a''), (''text'', PStr ''two'')]]\<rparr>
         ''a'')
     = Inl (KeyError ''job_id'')"
  by (simp add: get_source_block_def getitem_def)

text \<open>
  Claim C2, as amended: for every \<open>record_id\<close> string, provided every stored record the
  scan passes (each record before the first one whose \<^verbatim>\<open>"job_id"\<close> equals \<open>record_id\<close>,
  or every stored record when there is none) has the key \<^verbatim>\<open>"job_id"\<close>,
  \<^verbatim>\<open>get_source_block(record_id)\<close> returns a \<^verbatim>\<open>SourceBlock\<close> built from the first stored
  record whose \<^verbatim>\<open>"job_id"\<close> equals \<open>record_id\<close> (\<^verbatim>\<open>id\<close> that job id, \<^verbatim>\<open>provider_id\<close> the
  provider's \<^verbatim>\<open>_id\<close>, and \<^verbatim>\<open>text\<close>, \<^verbatim>\<open>media_path\<close>, \<^verbatim>\<open>metadata\<close> taken from the record)
  when such a record exists, and \<^verbatim>\<open>None\<close> when no stored record has that \<^verbatim>\<open>"job_id"\<close>;
  when a record the scan passes lacks the key, the call raises \<^verbatim>\<open>KeyError('job_id')\<close>.
  Here \<open>find\<close> gives the first element of a list that satisfies a predicate, and
  \<open>None\<close> when no element does.
\<close>

theorem get_source_block_first_match:
  "(list_all has_job_id (takeWhile (\<lambda>r. \<not> job_id_is record_id r) (self_records self)) \<longrightarrow>
      (case find (job_id_is record_id) (self_records self) of
         None \<Rightarrow> fst (get_source_block self record_id) = Inr None
       | Some r \<Rightarrow>
           \<exists>b. fst (get_source_block self record_id) = Inr (Some b) \<and>
               is_source_block_of self r b \<and> sb_id b = PStr record_id)) \<and>
   (\<not> list_all has_job_id (takeWhile (\<lambda>r. \<not> job_id_is record_id r) (self_records self)) \<longrightarrow>
      fst (get_source_block self record_id) = Inl (KeyError ''job_id''))"
proof (intro conjI impI)
  have eq: "fst (get_source_block self record_id)
              = get_source_block_loop self (self_records self) record_id"
    by (simp add: get_source_block_def)
  assume "list_all has_job_id (takeWhile (\<lambda>r. \<not> job_id_is record_id r) (self_records self))"
  then show "case find (job_id_is record_id) (self_records self) of
          None \<Rightarrow> fst (get_source_block self record_id) = Inr None
        | Some r \<Rightarrow>
            \<exists>b. fst (get_source_block self record_id) = Inr (Some b) \<and>
                is_source_block_of self r b \<and> sb_id b = PStr record_id"
    unfolding eq by (rule get_source_block_loop_ok)
next
  assume "\<not> list_all has_job_id (takeWhile (\<lambda>r. \<not> job_id_is record_id r) (self_records self))"
  from get_source_block_loop_err [OF this]
  show "fst (get_source_block self record_id) = Inl (KeyError ''job_id'')"
    by (simp add: get_source_block_def)
qed

theorem get_source_block_first_match_witness:
  "list_all has_job_id
     (takeWhile (\<lambda>r. \<not> job_id_is ''b'' r)
        (self_records
           \<lparr>self_id = ''p1'', self_name = ''P'',
            self_records = [[(''job_id'', PStr ''a'')],
                            [(''job_id'', PStr ''b''), (''text'', PStr ''first'')],
                            [(''job_id'', PStr ''b''), (''text'', PStr ''second'')]]\<rparr>)) \<and>
   (\<exists>b. fst (get_source_block
               \<lparr>self_id = ''p1'', self_name = ''P'',
                self_records = [[(''job_id'', PStr ''a'')],
                                [(''job_id'', PStr ''b''), (''text'', PStr ''first'')],
                                [(''job_id'', PStr ''b''), (''text'', PStr ''second'')]]\<rparr>
               ''b'') = Inr (Some b) \<and>
        is_source_block_of
          \<lparr>self_id = ''p1'', self_name = ''P'',
           self_records = [[(''job_id'', PStr ''a'')],
                           [(''job_id'', PStr ''b''), (''text'', PStr ''first'')],
                           [(''job_id'', PStr ''b''), (''text'', PStr ''second'')]]\<rparr>
          [(''job_id'', PStr ''b''), (''text'', PStr ''first'')] b \<and>
        sb_id b = PStr ''b'') \<and>
   list_all has_job_id
     (takeWhile (\<lambda>r. \<not> job_id_is ''c'' r)
        (self_records
           \<lparr>self_id = ''p1'', self_name = ''P'',
            self_records = [[(''job_id'', PStr ''a'')],
                            [(''job_id'', PStr ''b''), (''text'', PStr ''first'')],
                            [(''job_id'', PStr ''b''), (''text'', PStr ''second'')]]\<rparr>)) \<and>
   fst (get_source_block
          \<lparr>self_id = ''p1'', self_name = ''P'',
           self_records = [[(''job_id'', PStr ''a'')],
                           [(''job_id'', PStr ''b''), (''text'', PStr ''first'')],
                           [(''job_id'', PStr ''b''), (''text'', PStr ''second'')]]\<rparr>
          ''c'') = Inr None \<and>
   \<not> list_all has_job_id
       (takeWhile (\<lambda>r. \<not> job_id_is ''b'' r)
          (self_records
             \<lparr>self_id = ''p1'', self_name = ''P'',
              self_records = [[(''text'', PStr ''one'')], [(''job_id'', PStr ''b'')]]\<rparr>)) \<and>
   fst (get_source_block
          \<lparr>self_id = ''p1'', self_name = ''P'',
           self_records = [[(''text'', PStr ''one'')], [(''job_id'', PStr ''b'')]]\<rparr>
          ''b'') = Inl (KeyError ''job_id'')"
  using get_source_block_first_match [of "''b''"
        "\<lparr>self_id = ''p1'', self_name = ''P'',
          self_records = [[(''text'', PStr ''one'')], [(''job_id'', PStr ''b'')]]\<rparr>"]
    get_source_block_first_match [of "''b''"
        "\<lparr>self_id = ''p1'', self_name = ''P'',
          self_records = [[(''job_id'', PStr ''a'')],
                          [(''job_id'', PStr ''b''), (''text'', PStr ''first'')],
                          [(''job_id'', PStr ''b''), (''text'', PStr ''second'')]]\<rparr>"]
    get_source_block_first_match [of "''c''"
        "\<lparr>self_id = ''p1'', self_name = ''P'',
          self_records = [[(''job_id'', PStr ''a'')],
                          [(''job_id'', PStr ''b''), (''text'', PStr ''first'')],
                          [(''job_id'', PStr ''b''), (''text'', PStr ''second'')]]\<rparr>"]
  by (simp add: has_job_id_def job_id_is_def)

section \<open>Claims about construction\<close>

text \<open>
  Claim C3: a default-constructed provider holds exactly five records.
  \<^verbatim>\<open>_generate_sample_data\<close> returns a list of length five whose job ids are
  \<^verbatim>\<open>"job_demo_001"\<close> to \<^verbatim>\<open>"job_demo_005"\<close>, in this order, whatever the clock reads, and a
  provider constructed with an empty records list holds that list after \<^verbatim>\<open>__post_init__\<close>.
\<close>

theorem default_provider_has_five_records:
  "length (generate_sample_data isoformat now) = 5 \<and>
   map (\<lambda>r. getitem r ''job_id'') (generate_sample_data isoformat now)
     = [Inr (PStr ''job_demo_001''), Inr (PStr ''job_demo_002''), Inr (PStr ''job_demo_003''),
        Inr (PStr ''job_demo_004''), Inr (PStr ''job_demo_005'')] \<and>
   self_records (post_init isoformat now \<lparr>self_id = i, self_name = n, self_records = []\<rparr>)
     = generate_sample_data isoformat now \<and>
   self_records (init isoformat now i n []) = generate_sample_data isoformat now \<and>
   self_records (default_provider isoformat now) = generate_sample_data isoformat now \<and>
   length (self_records (default_provider isoformat now)) = 5"
proof -
  have five: "length (generate_sample_data isoformat now) = 5"
    by (rule length_generate_sample_data)
  have ids: "map (\<lambda>r. getitem r ''job_id'') (generate_sample_data isoformat now)
     = [Inr (PStr ''job_demo_001''), Inr (PStr ''job_demo_002''), Inr (PStr ''job_demo_003''),
        Inr (PStr ''job_demo_004''), Inr (PStr ''job_demo_005'')]"
    by (simp add: generate_sample_data_def getitem_def)
  have post: "self_records (post_init isoformat now \<lparr>self_id = i, self_name = n, self_records = []\<rparr>)
     = generate_sample_data isoformat now"
    by (simp add: post_init_def)
  have ini: "self_records (init isoformat now i n []) = generate_sample_data isoformat now"
    by (simp add: init_def post_init_def)
  have dflt: "self_records (default_provider isoformat now) = generate_sample_data isoformat now"
    by (rule self_records_default_provider)
  from five ids post ini dflt show ?thesis by simp
qed

text \<open>
  Claim C8: after construction \<^verbatim>\<open>_records\<close> is never empty. A provider constructed with
  an empty records list receives the five generated samples; a provider constructed with
  a non-empty list keeps it unchanged (the provider is returned as it was, no sample data
  is installed); and the two accessors leave the list non-empty.
\<close>

theorem records_nonempty_after_construction:
  "self_records (post_init isoformat now self) \<noteq> [] \<and>
   (self_records self = [] \<longrightarrow>
      self_records (post_init isoformat now self) = generate_sample_data isoformat now \<and>
      length (self_records (post_init isoformat now self)) = 5) \<and>
   (self_records self \<noteq> [] \<longrightarrow> post_init isoformat now self = self) \<and>
   self_records (init isoformat now i n rs) \<noteq> [] \<and>
   (rs \<noteq> [] \<longrightarrow> self_records (init isoformat now i n rs) = rs) \<and>
   self_records (snd (query_records (post_init isoformat now self) limit)) \<noteq> [] \<and>
   self_records (snd (get_source_block (post_init isoformat now self) record_id)) \<noteq> []"
proof -
  have ne: "generate_sample_data isoformat now \<noteq> []"
    using length_generate_sample_data [of isoformat now] by auto
  then have post: "self_records (post_init isoformat now p) \<noteq> []" for p
    by (simp add: post_init_def)
  have empty: "self_records self = [] \<longrightarrow>
      self_records (post_init isoformat now self) = generate_sample_data isoformat now \<and>
      length (self_records (post_init isoformat now self)) = 5"
    by (simp add: post_init_def length_generate_sample_data)
  have keep: "self_records self \<noteq> [] \<longrightarrow> post_init isoformat now self = self"
    by (simp add: post_init_def)
  have ini: "self_records (init isoformat now i n rs) \<noteq> []"
    unfolding init_def by (rule post)
  have ini_keep: "rs \<noteq> [] \<longrightarrow> self_records (init isoformat now i n rs) = rs"
    by (simp add: init_def post_init_def)
  have q: "self_records (snd (query_records (post_init isoformat now self) limit)) \<noteq> []"
    using post [of self] by (simp add: query_records_def)
  have g: "self_records (snd (get_source_block (post_init isoformat now self) record_id)) \<noteq> []"
    using post [of self] by (simp add: get_source_block_def)
  from post [of self] empty keep ini ini_keep q g show ?thesis by blast
qed

theorem records_nonempty_after_construction_witness:
  "\<forall>isoformat now.
     self_records \<lparr>self_id = ''p1'', self_name = ''P'', self_records = []\<rparr> = [] \<and>
     length (self_records
               (post_init isoformat now
                  \<lparr>self_id = ''p1'', self_name = ''P'', self_records = []\<rparr>)) = 5 \<and>
     self_records \<lparr>self_id = ''p1'', self_name = ''P'',
                   self_records = [[(''job_id'', PStr ''a'')]]\<rparr> \<noteq> [] \<and>
     post_init isoformat now
        \<lparr>self_id = ''p1'', self_name = ''P'', self_records = [[(''job_id'', PStr ''a'')]]\<rparr>
       = \<lparr>self_id = ''p1'', self_name = ''P'', self_records = [[(''job_id'', PStr ''a'')]]\<rparr> \<and>
     [[(''job_id'', PStr ''a'')]] \<noteq> [] \<and>
     self_records (init isoformat now ''p1'' ''P'' [[(''job_id'', PStr ''a'')]])
       = [[(''job_id'', PStr ''a'')]]"
proof (intro allI)
  fix isoformat :: "int \<Rightarrow> string" and now :: "nat \<Rightarrow> int"
  show "self_records \<lparr>self_id = ''p1'', self_name = ''P'', self_records = []\<rparr> = [] \<and>
     length (self_records
               (post_init isoformat now
                  \<lparr>self_id = ''p1'', self_name = ''P'', self_records = []\<rparr>)) = 5 \<and>
     self_records \<lparr>self_id = ''p1'', self_name = ''P'',
                   self_records = [[(''job_id'', PStr ''a'')]]\<rparr> \<noteq> [] \<and>
     post_init isoformat now
        \<lparr>self_id = ''p1'', self_name = ''P'', self_records = [[(''job_id'', PStr ''a'')]]\<rparr>
       = \<lparr>self_id = ''p1'', self_name = ''P'', self_records = [[(''job_id'', PStr ''a'')]]\<rparr> \<and>
     [[(''job_id'', PStr ''a'')]] \<noteq> [] \<and>
     self_records (init isoformat now ''p1'' ''P'' [[(''job_id'', PStr ''a'')]])
       = [[(''job_id'', PStr ''a'')]]"
    using records_nonempty_after_construction [of isoformat now
          "\<lparr>self_id = ''p1'', self_name = ''P'', self_records = []\<rparr>"
          "''p1''" "''P''" "[[(''job_id'', PStr ''a'')]]" 1 "''a''"]
      records_nonempty_after_construction [of isoformat now
          "\<lparr>self_id = ''p1'', self_name = ''P'', self_records = [[(''job_id'', PStr ''a'')]]\<rparr>"
          "''p1''" "''P''" "[[(''job_id'', PStr ''a'')]]" 1 "''a''"]
    by auto
qed

section \<open>What the accessors write to the store\<close>

lemma heap_lookup_append:
  "heap_lookup h a = Some ob \<Longrightarrow> heap_lookup (h @ new) a = Some ob"
  by (auto simp: heap_lookup_def nth_append split: if_splits)

lemma heap_extends:
  assumes "length h \<le> length h'" and "\<forall>a<length h. h' ! a = h ! a"
  shows "\<exists>new. h' = h @ new"
proof -
  have "take (length h) h' = h"
    using assms by (intro nth_equalityI) simp_all
  then have "h' = h @ drop (length h) h'"
    by (metis append_take_drop_id)
  then show ?thesis ..
qed

text \<open>
  One turn of the loop allocates two objects and overwrites the list \<^verbatim>\<open>records\<close>; every
  other object of the store stays as it is.
\<close>

lemma query_records_heap_step_frame:
  assumes "query_records_heap_step self r records h = (res, h')"
  shows "length h \<le> length h' \<and> (\<forall>a<length h. a \<noteq> records \<longrightarrow> h' ! a = h ! a)"
  using assms
  by (auto simp: query_records_heap_step_def alloc_def list_append_def nth_append
           split: sum.splits option.splits prod.splits obj.splits)

lemma query_records_heap_loop_frame:
  "query_records_heap_loop self rs records h = (res, h') \<Longrightarrow>
   length h \<le> length h' \<and> (\<forall>a<length h. a \<noteq> records \<longrightarrow> h' ! a = h ! a)"
proof (induction rs arbitrary: h)
  case Nil
  then show ?case by simp
next
  case (Cons r rs)
  obtain res1 h1 where step: "query_records_heap_step self r records h = (res1, h1)"
    by (cases "query_records_heap_step self r records h")
  note f1 = query_records_heap_step_frame [OF step]
  show ?case
  proof (cases res1)
    case (Inl e)
    with Cons.prems step have "h' = h1" by simp
    with f1 show ?thesis by simp
  next
    case (Inr u)
    with Cons.prems step have "query_records_heap_loop self rs records h1 = (res, h')"
      by simp
    from Cons.IH [OF this] f1 show ?thesis by auto
  qed
qed

lemma query_records_heap_frame:
  assumes "query_records_heap h self limit = (res, h')"
  shows "length h \<le> length h' \<and> (\<forall>a<length h. h' ! a = h ! a)"
proof (cases "get_provider (h @ [OList []]) self")
  case (Inl e)
  with assms show ?thesis
    by (auto simp: query_records_heap_def alloc_def nth_append)
next
  case (Inr p)
  obtain pid pname precords where p: "p = (pid, pname, precords)"
    by (cases p)
  show ?thesis
  proof (cases "get_list (h @ [OList []]) precords")
    case (Inl e)
    with assms Inr p show ?thesis
      by (auto simp: query_records_heap_def alloc_def nth_append)
  next
    case elems: (Inr elems)
    let ?h2 = "h @ [OList []] @ [OList (slice_to elems limit)]"
    obtain res3 h3 where
      loop: "query_records_heap_loop self (slice_to elems limit) (length h) ?h2 = (res3, h3)"
      by (cases "query_records_heap_loop self (slice_to elems limit) (length h) ?h2")
    from assms Inr p elems loop have h': "h' = h3"
      by (auto simp: query_records_heap_def alloc_def split: sum.splits)
    from query_records_heap_loop_frame [OF loop]
    have "length ?h2 \<le> length h3" and "\<forall>a<length ?h2. a \<noteq> length h \<longrightarrow> h3 ! a = ?h2 ! a"
      by simp_all
    then have "length h \<le> length h3 \<and> (\<forall>a<length h. h3 ! a = h ! a)"
      by (auto simp: nth_append)
    with h' show ?thesis by simp
  qed
qed

lemma get_source_block_heap_loop_frame:
  "get_source_block_heap_loop self rs record_id h = (res, h') \<Longrightarrow>
   length h \<le> length h' \<and> (\<forall>a<length h. h' ! a = h ! a)"
  by (induction rs)
     (auto simp: alloc_def nth_append split: sum.splits option.splits prod.splits if_splits)

lemma get_source_block_heap_frame:
  assumes "get_source_block_heap h self record_id = (res, h')"
  shows "length h \<le> length h' \<and> (\<forall>a<length h. h' ! a = h ! a)"
  using assms get_source_block_heap_loop_frame [of self _ record_id h res h']
  by (auto simp: get_source_block_heap_def split: sum.splits prod.splits)

text \<open>What can be read back from a store can be read back from every extension of it.\<close>

lemma read_back_append:
  "read_val n h v = Some pv \<Longrightarrow> read_val n (h @ new) v = Some pv"
  "read_items n h kvs = Some ps \<Longrightarrow> read_items n (h @ new) kvs = Some ps"
  "read_list n h vs = Some pvs \<Longrightarrow> read_list n (h @ new) vs = Some pvs"
proof (induction n h v and n h kvs and n h vs arbitrary: pv and ps and pvs
       rule: read_val_read_items_read_list.induct)
  case (7 n h a)
  from "7.prems" obtain ob where ob: "heap_lookup h a = Some ob"
    by (auto split: option.splits)
  note ext = heap_lookup_append [OF ob, of new]
  show ?case
  proof (cases ob)
    case (ODict kvs)
    with "7.prems" ob obtain ps where ps: "read_items n h kvs = Some ps" "pv = PDict ps"
      by auto
    from "7.IH"(1) [OF ob ODict ps(1)] ext ODict ps(2) show ?thesis by simp
  next
    case (OList vs)
    with "7.prems" ob obtain pvs where pvs: "read_list n h vs = Some pvs" "pv = PList pvs"
      by auto
    from "7.IH"(2) [OF ob OList pvs(1)] ext OList pvs(2) show ?thesis by simp
  qed (use "7.prems" ob in simp_all)
qed (auto split: option.splits)

lemma read_records_append:
  "read_records n h self = Some rs \<Longrightarrow> read_records n (h @ new) self = Some rs"
  by (auto simp: read_records_def get_provider_def read_back_append(1)
           dest: heap_lookup_append [where new = new]
           split: sum.splits option.splits obj.splits)

section \<open>Frame of the accessors\<close>

text \<open>
  Claim C4: records are immutable once generated. On the store, a call of
  \<^verbatim>\<open>query_records\<close> or \<^verbatim>\<open>get_source_block\<close> only allocates: whatever the limit or the
  record id, and whether the call returns or raises, the store after the call is the store
  before it followed by new objects (the only object a call overwrites is its own new list
  \<^verbatim>\<open>records\<close>). So every object that existed before the call is the same object after
  it: the provider, the list in its \<^verbatim>\<open>_records\<close> field (same length, same order), every
  stored record and every object a stored record refers to; and \<^verbatim>\<open>_records\<close> reads back
  as the same list of dictionaries, to every depth.
\<close>

theorem accessors_leave_store_unchanged:
  "(\<exists>new. snd (query_records_heap h self limit) = h @ new) \<and>
   (\<exists>new. snd (get_source_block_heap h self record_id) = h @ new) \<and>
   (a < length h \<longrightarrow>
      heap_lookup (snd (query_records_heap h self limit)) a = heap_lookup h a \<and>
      heap_lookup (snd (get_source_block_heap h self record_id)) a = heap_lookup h a) \<and>
   (read_records n h self = Some rs \<longrightarrow>
      read_records n (snd (query_records_heap h self limit)) self = Some rs \<and>
      read_records n (snd (get_source_block_heap h self record_id)) self = Some rs)"
proof -
  obtain res hq where q: "query_records_heap h self limit = (res, hq)"
    by (cases "query_records_heap h self limit")
  obtain res' hg where g: "get_source_block_heap h self record_id = (res', hg)"
    by (cases "get_source_block_heap h self record_id")
  from query_records_heap_frame [OF q] obtain newq where newq: "hq = h @ newq"
    using heap_extends by blast
  from get_source_block_heap_frame [OF g] obtain newg where newg: "hg = h @ newg"
    using heap_extends by blast
  have old: "heap_lookup (h @ new) a = heap_lookup h a" if "a < length h" for new
    using that by (simp add: heap_lookup_def nth_append)
  have reads: "read_records n (h @ new) self = Some rs" if "read_records n h self = Some rs" for new
    using that by (rule read_records_append)
  from q g newq newg old reads show ?thesis by simp
qed

theorem accessors_leave_store_unchanged_witness:
  "(3::nat) < length
      [OProvider (HStr ''p1'') (HStr ''P'') (HRef 1),
       OList [HRef 2, HRef 4],
       ODict [(''job_id'', HStr ''a''), (''metadata'', HRef 3)],
       ODict [(''chapter'', HInt 1)],
       ODict [(''text'', HStr ''two'')]] \<and>
   read_records 3
      [OProvider (HStr ''p1'') (HStr ''P'') (HRef 1),
       OList [HRef 2, HRef 4],
       ODict [(''job_id'', HStr ''a''), (''metadata'', HRef 3)],
       ODict [(''chapter'', HInt 1)],
       ODict [(''text'', HStr ''two'')]] 0
     = Some (PList [PDict [(''job_id'', PStr ''a''), (''metadata'', PDict [(''chapter'', PInt 1)])],
                    PDict [(''text'', PStr ''two'')]]) \<and>
   heap_lookup
      (snd (query_records_heap
         [OProvider (HStr ''p1'') (HStr ''P'') (HRef 1),
          OList [HRef 2, HRef 4],
          ODict [(''job_id'', HStr ''a''), (''metadata'', HRef 3)],
          ODict [(''chapter'', HInt 1)],
          ODict [(''text'', HStr ''two'')]] 0 2)) 3
     = Some (ODict [(''chapter'', HInt 1)]) \<and>
   heap_lookup
      (snd (get_source_block_heap
         [OProvider (HStr ''p1'') (HStr ''P'') (HRef 1),
          OList [HRef 2, HRef 4],
          ODict [(''job_id'', HStr ''a''), (''metadata'', HRef 3)],
          ODict [(''chapter'', HInt 1)],
          ODict [(''text'', HStr ''two'')]] 0 ''a'')) 3
     = Some (ODict [(''chapter'', HInt 1)]) \<and>
   read_records 3
      (snd (query_records_heap
         [OProvider (HStr ''p1'') (HStr ''P'') (HRef 1),
          OList [HRef 2, HRef 4],
          ODict [(''job_id'', HStr ''a''), (''metadata'', HRef 3)],
          ODict [(''chapter'', HInt 1)],
          ODict [(''text'', HStr ''two'')]] 0 2)) 0
     = Some (PList [PDict [(''job_id'', PStr ''a''), (''metadata'', PDict [(''chapter'', PInt 1)])],
                    PDict [(''text'', PStr ''two'')]]) \<and>
   read_records 3
      (snd (get_source_block_heap
         [OProvider (HStr ''p1'') (HStr ''P'') (HRef 1),
          OList [HRef 2, HRef 4],
          ODict [(''job_id'', HStr ''a''), (''metadata'', HRef 3)],
          ODict [(''chapter'', HInt 1)],
          ODict [(''text'', HStr ''two'')]] 0 ''a'')) 0
     = Some (PList [PDict [(''job_id'', PStr ''a''), (''metadata'', PDict [(''chapter'', PInt 1)])],
                    PDict [(''text'', PStr ''two'')]])"
proof -
  let ?h = "[OProvider (HStr ''p1'') (HStr ''P'') (HRef 1),
       OList [HRef 2, HRef 4],
       ODict [(''job_id'', HStr ''a''), (''metadata'', HRef 3)],
       ODict [(''chapter'', HInt 1)],
       ODict [(''text'', HStr ''two'')]]"
  let ?rs = "PList [PDict [(''job_id'', PStr ''a''), (''metadata'', PDict [(''chapter'', PInt 1)])],
                    PDict [(''text'', PStr ''two'')]]"
  have len: "(3::nat) < length ?h" by simp
  have old: "heap_lookup ?h 3 = Some (ODict [(''chapter'', HInt 1)])"
    by (simp add: heap_lookup_def)
  have reads: "read_records 3 ?h 0 = Some ?rs"
    by (simp add: read_records_def get_provider_def heap_lookup_def eval_nat_numeral)
  from accessors_leave_store_unchanged [of ?h 0 2 "''a''" 3 3 ?rs] len old reads
  show ?thesis by simp
qed

text \<open>
  The results share the stored objects: in the store of the example above,
  \<^verbatim>\<open>query_records(1)\<close> returns a new list of one new \<^verbatim>\<open>SourceRecord\<close> whose \<^verbatim>\<open>metadata\<close>
  is the reference held by the stored record, not a copy.
\<close>

lemma query_records_heap_shares_metadata:
  "query_records_heap
      [OProvider (HStr ''p1'') (HStr ''P'') (HRef 1),
       OList [HRef 2, HRef 4],
       ODict [(''job_id'', HStr ''a''), (''metadata'', HRef 3)],
       ODict [(''chapter'', HInt 1)],
       ODict [(''text'', HStr ''two'')]] 0 1
     = (Inr (HRef 5),
        [OProvider (HStr ''p1'') (HStr ''P'') (HRef 1),
         OList [HRef 2, HRef 4],
         ODict [(''job_id'', HStr ''a''), (''metadata'', HRef 3)],
         ODict [(''chapter'', HInt 1)],
         ODict [(''text'', HStr ''two'')]] @
        [OList [HRef 8],
         OList [HRef 2],
         ODict [],
         OSourceRecord (HStr ''a'') (HStr '''') (HStr '''') (HRef 3) (HStr '''') (HStr ''p1'')])"
  by (simp add: query_records_heap_def query_records_heap_step_def alloc_def get_provider_def
        get_list_def get_dict_def heap_lookup_def slice_to_def list_append_def heap_dict_get_def)

section \<open>The store model agrees with the value model\<close>

text \<open>
  The two models of the accessors are tied together: when the provider of the store reads
  back as the provider \<open>P\<close> of the value model, a call on the store returns what the call
  on \<open>P\<close> returns, read back from the store the call leaves.
\<close>

lemma read_back_more_fuel:
  "read_val n h v = Some pv \<Longrightarrow> read_val (Suc n) h v = Some pv"
  "read_items n h kvs = Some ps \<Longrightarrow> read_items (Suc n) h kvs = Some ps"
  "read_list n h vs = Some pvs \<Longrightarrow> read_list (Suc n) h vs = Some pvs"
proof (induction n h v and n h kvs and n h vs arbitrary: pv and ps and pvs
       rule: read_val_read_items_read_list.induct)
  case (7 n h a)
  from "7.prems" obtain ob where ob: "heap_lookup h a = Some ob"
    by (auto split: option.splits)
  show ?case
  proof (cases ob)
    case (ODict kvs)
    with "7.prems" ob obtain ps where ps: "read_items n h kvs = Some ps" "pv = PDict ps"
      by auto
    from "7.IH"(1) [OF ob ODict ps(1)] ob ODict ps(2) show ?thesis by simp
  next
    case (OList vs)
    with "7.prems" ob obtain pvs where pvs: "read_list n h vs = Some pvs" "pv = PList pvs"
      by auto
    from "7.IH"(2) [OF ob OList pvs(1)] ob OList pvs(2) show ?thesis by simp
  qed (use "7.prems" ob in simp_all)
qed (auto split: option.splits)

lemma read_items_map_of:
  "read_items n h kvs = Some ps \<Longrightarrow>
   map_of ps k = (case map_of kvs k of None \<Rightarrow> None | Some v \<Rightarrow> read_val n h v) \<and>
   (\<forall>v. map_of kvs k = Some v \<longrightarrow> read_val n h v \<noteq> None)"
  by (induction kvs arbitrary: ps) (auto split: option.splits)

lemma read_list_dicts:
  "read_list (Suc n) h es = Some (map PDict rs) \<Longrightarrow>
   list_all2 (\<lambda>e r. \<exists>a kvs. e = HRef a \<and> heap_lookup h a = Some (ODict kvs) \<and>
                       read_items n h kvs = Some r) es rs"
proof (induction es arbitrary: rs)
  case Nil
  then show ?case by simp
next
  case (Cons e es)
  from Cons.prems obtain pv pvs where
    pv: "read_val (Suc n) h e = Some pv" and pvs: "read_list (Suc n) h es = Some pvs"
    and eq: "map PDict rs = pv # pvs"
    by (auto split: option.splits)
  from eq obtain r rs' where rs: "rs = r # rs'" "pv = PDict r" "pvs = map PDict rs'"
    by (cases rs) auto
  from pv rs(2) have "\<exists>a kvs. e = HRef a \<and> heap_lookup h a = Some (ODict kvs) \<and>
                       read_items n h kvs = Some r"
    by (cases e) (auto split: option.splits obj.splits)
  moreover from Cons.IH [of rs'] pvs rs(3)
  have "list_all2 (\<lambda>e r. \<exists>a kvs. e = HRef a \<and> heap_lookup h a = Some (ODict kvs) \<and>
                       read_items n h kvs = Some r) es rs'"
    by simp
  ultimately show ?case using rs(1) by simp
qed

lemma list_all2_map_Some:
  "list_all2 (\<lambda>x y. f x = Some y) xs ys \<Longrightarrow> map f xs = map Some ys"
  by (induction rule: list_all2_induct) simp_all

lemma slice_to_list_all2:
  assumes "list_all2 R xs ys"
  shows "list_all2 R (slice_to xs stop) (slice_to ys stop)"
proof -
  from assms have "length xs = length ys"
    by (rule list_all2_lengthD)
  then show ?thesis
    using assms by (simp add: slice_to_def Let_def list_all2_takeI)
qed

text \<open>
  The loop of \<^verbatim>\<open>query_records\<close> on the store computes what the loop on values computes:
  when the stored records read back as the dictionaries \<open>rs\<close>, both raise the same
  \<^verbatim>\<open>KeyError\<close>, or the list \<^verbatim>\<open>records\<close> of the store reads back as the list of the value
  model.
\<close>

lemma query_records_heap_refines:
  assumes prov: "get_provider h self = Inr (HStr (self_id P), pname, precords)"
    and lst: "get_list h precords = Inr es"
    and rd: "read_list (Suc n) h es = Some (map PDict (self_records P))"
  shows "case fst (query_records P limit) of
           Inl err \<Rightarrow> err = KeyError ''job_id'' \<and>
                    fst (query_records_heap h self limit) = Inl (HKeyError ''job_id'')
         | Inr out \<Rightarrow>
             \<exists>a refs. fst (query_records_heap h self limit) = Inr (HRef a) \<and>
               heap_lookup (snd (query_records_heap h self limit)) a = Some (OList refs) \<and>
               map (read_source_record (Suc n) (snd (query_records_heap h self limit))) refs
                 = map Some out"
proof -
  define stored where "stored e r \<longleftrightarrow>
    (\<exists>a kvs. e = HRef a \<and> heap_lookup h a = Some (ODict kvs) \<and> read_items n h kvs = Some r)"
    for e r
  define fok where "fok hc v pv \<longleftrightarrow>
    read_val n h v = Some pv \<or>
    (\<exists>d. v = HRef d \<and> heap_lookup hc d = Some (ODict []) \<and> pv = PDict [])"
    for hc v pv
  define sok where "sok hc ref out \<longleftrightarrow>
    (\<exists>a f1 f2 f3 f4 f5. ref = HRef a \<and>
       heap_lookup hc a = Some (OSourceRecord f1 f2 f3 f4 f5 (HStr (self_id P))) \<and>
       fok hc f1 (sr_record_id out) \<and> fok hc f2 (sr_media_path out) \<and>
       fok hc f3 (sr_text out) \<and> fok hc f4 (sr_metadata out) \<and>
       fok hc f5 (sr_created_at out) \<and> sr_provider_id out = self_id P)"
    for hc ref and out :: SourceRecord
  define Inv where "Inv hc refs acc \<longleftrightarrow>
    (\<exists>ext. hc = h @ ext) \<and> heap_lookup hc (length h) = Some (OList refs) \<and>
    list_all2 (sok hc) refs acc"
    for hc refs acc
  from prov have self_ob:
    "heap_lookup h self = Some (OProvider (HStr (self_id P)) pname precords)"
    by (auto simp: get_provider_def split: option.splits obj.splits)
  have sim: "\<forall>hc refs acc. Inv hc refs acc \<longrightarrow>
      (case query_records_loop P rs' acc of
         Inl err \<Rightarrow> err = KeyError ''job_id'' \<and>
                  fst (query_records_heap_loop self es' (length h) hc) = Inl (HKeyError ''job_id'')
       | Inr out \<Rightarrow>
           \<exists>h' refs'. query_records_heap_loop self es' (length h) hc = (Inr (), h') \<and>
                      Inv h' refs' out)"
    if "list_all2 stored es' rs'" for es' rs'
    using that
  proof (induction rule: list_all2_induct)
    case Nil
    show ?case by auto
  next
    case (Cons e es' r rs')
    from Cons.hyps(1) obtain a kvs where e: "e = HRef a"
      and a: "heap_lookup h a = Some (ODict kvs)" and kvs: "read_items n h kvs = Some r"
      by (auto simp: stored_def)
    note mo = read_items_map_of [OF kvs]
    show ?case
    proof (intro allI impI)
      fix hc refs acc
      assume inv: "Inv hc refs acc"
      then obtain ext where ext: "hc = h @ ext"
        and ra: "heap_lookup hc (length h) = Some (OList refs)"
        and acc: "list_all2 (sok hc) refs acc"
        by (auto simp: Inv_def)
      have dict: "get_dict hc e = Inr kvs"
        using heap_lookup_append [OF a, of ext] by (simp add: get_dict_def e ext)
      show "case query_records_loop P (r # rs') acc of
         Inl err \<Rightarrow> err = KeyError ''job_id'' \<and>
              fst (query_records_heap_loop self (e # es') (length h) hc) = Inl (HKeyError ''job_id'')
       | Inr out \<Rightarrow>
           \<exists>h' refs'. query_records_heap_loop self (e # es') (length h) hc = (Inr (), h') \<and>
                      Inv h' refs' out"
      proof (cases "map_of r ''job_id''")
        case None
        with mo [of "''job_id''"] have "map_of kvs ''job_id'' = None"
          by (auto split: option.splits)
        with None dict show ?thesis
          by (simp add: getitem_def query_records_heap_step_def)
      next
        case (Some pv)
        with mo [of "''job_id''"] obtain v where v: "map_of kvs ''job_id'' = Some v"
          and pv: "read_val n h v = Some pv"
          by (auto split: option.splits)
        define srv where "srv =
          \<lparr>sr_record_id = pv,
            sr_media_path = dict_get r ''audio_path'' (PStr ''''),
            sr_text = dict_get r ''text'' (PStr ''''),
            sr_metadata = dict_get r ''metadata'' (PDict []),
            sr_created_at = dict_get r ''created_at'' (PStr ''''),
            sr_provider_id = self_id P\<rparr>"
        define ob where "ob =
          OSourceRecord v
            (heap_dict_get kvs ''audio_path'' (HStr ''''))
            (heap_dict_get kvs ''text'' (HStr ''''))
            (heap_dict_get kvs ''metadata'' (HRef (length hc)))
            (heap_dict_get kvs ''created_at'' (HStr ''''))
            (HStr (self_id P))"
        define h3 where "h3 = (hc @ [ODict [], ob])[length h := OList (refs @ [HRef (Suc (length hc))])]"
        from ra have ra_lt: "length h < length hc"
          by (auto simp: heap_lookup_def split: if_splits)
        have vloop: "query_records_loop P (r # rs') acc = query_records_loop P rs' (acc @ [srv])"
          by (simp add: getitem_def Some srv_def)
        have prov1: "get_provider (hc @ [ODict []]) self
                       = Inr (HStr (self_id P), pname, precords)"
          using heap_lookup_append [OF self_ob, of "ext @ [ODict []]"]
          by (simp add: get_provider_def ext)
        have app: "list_append (hc @ [ODict [], ob]) (length h) (HRef (Suc (length hc))) = Inr h3"
          using heap_lookup_append [OF ra, of "[ODict [], ob]"]
          by (simp add: list_append_def h3_def)
        have step: "query_records_heap_step self e (length h) hc = (Inr (), h3)"
          using dict v prov1 app
          by (simp add: query_records_heap_step_def alloc_def ob_def)
        have hloop: "query_records_heap_loop self (e # es') (length h) hc
                       = query_records_heap_loop self es' (length h) h3"
          by (simp add: step)
        have keep: "heap_lookup h3 x = Some o'" if "heap_lookup hc x = Some o'" "x \<noteq> length h" for x o'
          using that by (auto simp: heap_lookup_def h3_def nth_append split: if_splits)
        have fok_keep: "fok h3 f p" if "fok hc f p" for f p
        proof -
          from that consider "read_val n h f = Some p"
            | d where "f = HRef d" "heap_lookup hc d = Some (ODict [])" "p = PDict []"
            by (auto simp: fok_def)
          then show ?thesis
          proof cases
            case 1
            then show ?thesis by (simp add: fok_def)
          next
            case 2
            from 2(2) ra have "d \<noteq> length h" by auto
            from keep [OF 2(2) this] 2 show ?thesis by (simp add: fok_def)
          qed
        qed
        have sok_keep: "sok h3 ref out" if "sok hc ref out" for ref out
        proof -
          from that obtain a' f1 f2 f3 f4 f5 where ref: "ref = HRef a'"
            and a': "heap_lookup hc a' = Some (OSourceRecord f1 f2 f3 f4 f5 (HStr (self_id P)))"
            and fs: "fok hc f1 (sr_record_id out)" "fok hc f2 (sr_media_path out)"
               "fok hc f3 (sr_text out)" "fok hc f4 (sr_metadata out)"
               "fok hc f5 (sr_created_at out)" "sr_provider_id out = self_id P"
            by (auto simp: sok_def)
          from a' ra have "a' \<noteq> length h" by auto
          from keep [OF a' this] fs(1-5) [THEN fok_keep] fs(6) ref show ?thesis
            unfolding sok_def by blast
        qed
        have got: "fok h3 (heap_dict_get kvs k (HStr '''')) (dict_get r k (PStr ''''))" for k
          using mo [of k]
          by (auto simp: fok_def heap_dict_get_def dict_get_def split: option.splits)
        have d_ob: "heap_lookup h3 (length hc) = Some (ODict [])"
          using ra_lt by (simp add: heap_lookup_def h3_def nth_append)
        have meta: "fok h3 (heap_dict_get kvs ''metadata'' (HRef (length hc)))
                      (dict_get r ''metadata'' (PDict []))"
          using mo [of "''metadata''"] d_ob
          by (auto simp: fok_def heap_dict_get_def dict_get_def split: option.splits)
        have sr_ob: "heap_lookup h3 (Suc (length hc)) = Some ob"
          using ra_lt by (simp add: heap_lookup_def h3_def nth_append)
        have new_ok: "sok h3 (HRef (Suc (length hc))) srv"
          unfolding sok_def
          using sr_ob got [of "''audio_path''"] got [of "''text''"] got [of "''created_at''"] meta pv
          by (auto simp: ob_def srv_def fok_def)
        have ext3: "\<exists>ext'. h3 = h @ ext'"
          by (auto simp: h3_def ext list_update_append)
        have ra3: "heap_lookup h3 (length h) = Some (OList (refs @ [HRef (Suc (length hc))]))"
          using ra_lt by (simp add: heap_lookup_def h3_def)
        have "list_all2 (sok h3) refs acc"
          using acc sok_keep by (auto elim: list_all2_mono)
        with new_ok have "list_all2 (sok h3) (refs @ [HRef (Suc (length hc))]) (acc @ [srv])"
          by (simp add: list_all2_appendI)
        with ext3 ra3 have "Inv h3 (refs @ [HRef (Suc (length hc))]) (acc @ [srv])"
          by (simp add: Inv_def)
        with Cons.IH have "case query_records_loop P rs' (acc @ [srv]) of
           Inl err \<Rightarrow> err = KeyError ''job_id'' \<and>
                fst (query_records_heap_loop self es' (length h) h3) = Inl (HKeyError ''job_id'')
         | Inr out \<Rightarrow>
             \<exists>h' refs'. query_records_heap_loop self es' (length h) h3 = (Inr (), h') \<and>
                        Inv h' refs' out"
          by blast
        then show ?thesis
          unfolding vloop hloop .
      qed
    qed
  qed
  have all: "list_all2 stored es (self_records P)"
    using read_list_dicts [OF rd] by (rule list_all2_mono) (simp add: stored_def)
  let ?es = "slice_to es limit"
  let ?h2 = "h @ [OList [], OList ?es]"
  have prov1: "get_provider (h @ [OList []]) self = Inr (HStr (self_id P), pname, precords)"
    using heap_lookup_append [OF self_ob, of "[OList []]"] by (simp add: get_provider_def)
  from lst obtain la where la: "precords = HRef la" "heap_lookup h la = Some (OList es)"
    by (auto simp: get_list_def split: hval.splits option.splits obj.splits)
  have lst1: "get_list (h @ [OList []]) precords = Inr es"
    using heap_lookup_append [OF la(2), of "[OList []]"] by (simp add: get_list_def la(1))
  have call: "query_records_heap h self limit =
      (case query_records_heap_loop self ?es (length h) ?h2 of
         (Inl e, h3) \<Rightarrow> (Inl e, h3)
       | (Inr u, h3) \<Rightarrow> (Inr (HRef (length h)), h3))"
    by (simp add: query_records_heap_def alloc_def prov1 lst1)
  have inv0: "Inv ?h2 [] []"
    by (simp add: Inv_def heap_lookup_def nth_append)
  from sim [OF slice_to_list_all2 [OF all, of limit]] inv0
  have res: "case query_records_loop P (slice_to (self_records P) limit) [] of
      Inl err \<Rightarrow> err = KeyError ''job_id'' \<and>
           fst (query_records_heap_loop self ?es (length h) ?h2) = Inl (HKeyError ''job_id'')
    | Inr out \<Rightarrow>
        \<exists>h' refs'. query_records_heap_loop self ?es (length h) ?h2 = (Inr (), h') \<and>
                   Inv h' refs' out"
    by blast
  show ?thesis
  proof (cases "query_records_loop P (slice_to (self_records P) limit) []")
    case (Inl e)
    with res have e: "e = KeyError ''job_id''"
      and hl: "fst (query_records_heap_loop self ?es (length h) ?h2) = Inl (HKeyError ''job_id'')"
      by simp_all
    from hl have "fst (query_records_heap h self limit) = Inl (HKeyError ''job_id'')"
      unfolding call by (cases "query_records_heap_loop self ?es (length h) ?h2") auto
    with Inl e show ?thesis by (simp add: query_records_def)
  next
    case (Inr out)
    with res obtain h' refs' where
      hl: "query_records_heap_loop self ?es (length h) ?h2 = (Inr (), h')"
      and inv: "Inv h' refs' out"
      by auto
    from hl have q: "query_records_heap h self limit = (Inr (HRef (length h)), h')"
      unfolding call by simp
    from inv obtain ext where ext: "h' = h @ ext"
      and ra: "heap_lookup h' (length h) = Some (OList refs')"
      and oks: "list_all2 (sok h') refs' out"
      by (auto simp: Inv_def)
    have fld: "read_val (Suc n) h' f = Some p" if "fok h' f p" for f p
    proof -
      from that consider "read_val n h f = Some p"
        | d where "f = HRef d" "heap_lookup h' d = Some (ODict [])" "p = PDict []"
        by (auto simp: fok_def)
      then show ?thesis
      proof cases
        case 1
        from read_back_append(1) [OF 1, of ext] show ?thesis
          unfolding ext by (rule read_back_more_fuel(1))
      next
        case 2
        then show ?thesis by simp
      qed
    qed
    have "read_source_record (Suc n) h' ref = Some o'" if "sok h' ref o'" for ref o'
    proof -
      from that obtain a' f1 f2 f3 f4 f5 where ref: "ref = HRef a'"
        and a': "heap_lookup h' a' = Some (OSourceRecord f1 f2 f3 f4 f5 (HStr (self_id P)))"
        and fs: "fok h' f1 (sr_record_id o')" "fok h' f2 (sr_media_path o')"
           "fok h' f3 (sr_text o')" "fok h' f4 (sr_metadata o')"
           "fok h' f5 (sr_created_at o')" "sr_provider_id o' = self_id P"
        by (auto simp: sok_def)
      from fs(1-5) [THEN fld] fs(6) a' ref show ?thesis
        by (cases o') (simp add: read_source_record_def)
    qed
    with oks have "list_all2 (\<lambda>ref o'. read_source_record (Suc n) h' ref = Some o') refs' out"
      by (auto elim: list_all2_mono)
    then have "map (read_source_record (Suc n) h') refs' = map Some out"
      by (rule list_all2_map_Some)
    with q ra Inr show ?thesis by (simp add: query_records_def)
  qed
qed


lemma read_val_eq_str:
  "read_val n h v = Some pv \<Longrightarrow> heap_eq_str v s = py_eq_str pv s"
  by (cases v; cases n) (auto split: option.splits obj.splits)

text \<open>Likewise for \<^verbatim>\<open>get_source_block\<close>: the same exception, \<^verbatim>\<open>None\<close>, or the same block.\<close>

lemma get_source_block_heap_refines:
  assumes prov: "get_provider h self = Inr (HStr (self_id P), pname, precords)"
    and lst: "get_list h precords = Inr es"
    and rd: "read_list (Suc n) h es = Some (map PDict (self_records P))"
  shows "case fst (get_source_block P record_id) of
           Inl err \<Rightarrow> err = KeyError ''job_id'' \<and>
                      fst (get_source_block_heap h self record_id) = Inl (HKeyError ''job_id'')
         | Inr None \<Rightarrow> fst (get_source_block_heap h self record_id) = Inr HNone
         | Inr (Some b) \<Rightarrow>
             read_source_block (Suc n) (snd (get_source_block_heap h self record_id))
               (case fst (get_source_block_heap h self record_id) of Inl err \<Rightarrow> HNone | Inr ref \<Rightarrow> ref)
             = Some b"
proof -
  define stored where "stored e r \<longleftrightarrow>
    (\<exists>a kvs. e = HRef a \<and> heap_lookup h a = Some (ODict kvs) \<and> read_items n h kvs = Some r)"
    for e r
  have sim: "case get_source_block_loop P rs' record_id of
           Inl err \<Rightarrow> err = KeyError ''job_id'' \<and>
                      fst (get_source_block_heap_loop self es' record_id h) = Inl (HKeyError ''job_id'')
         | Inr None \<Rightarrow> fst (get_source_block_heap_loop self es' record_id h) = Inr HNone
         | Inr (Some b) \<Rightarrow>
             read_source_block (Suc n) (snd (get_source_block_heap_loop self es' record_id h))
               (case fst (get_source_block_heap_loop self es' record_id h) of
                  Inl err \<Rightarrow> HNone | Inr ref \<Rightarrow> ref)
             = Some b"
    if "list_all2 stored es' rs'" for es' rs'
    using that
  proof (induction rule: list_all2_induct)
    case Nil
    show ?case by simp
  next
    case (Cons e es' r rs')
    from Cons.hyps(1) obtain a kvs where e: "e = HRef a"
      and a: "heap_lookup h a = Some (ODict kvs)" and kvs: "read_items n h kvs = Some r"
      by (auto simp: stored_def)
    note mo = read_items_map_of [OF kvs]
    have dict: "get_dict h e = Inr kvs"
      by (simp add: get_dict_def e a)
    show ?case
    proof (cases "map_of r ''job_id''")
      case None
      with mo [of "''job_id''"] have "map_of kvs ''job_id'' = None"
        by (auto split: option.splits)
      with None dict show ?thesis
        by (simp add: getitem_def)
    next
      case (Some pv)
      with mo [of "''job_id''"] obtain v where v: "map_of kvs ''job_id'' = Some v"
        and pv: "read_val n h v = Some pv"
        by (auto split: option.splits)
      note eq = read_val_eq_str [OF pv, of record_id]
      show ?thesis
      proof (cases "py_eq_str pv record_id")
        case False
        have vskip: "get_source_block_loop P (r # rs') record_id
                       = get_source_block_loop P rs' record_id"
          using False by (simp add: getitem_def Some)
        have hskip: "get_source_block_heap_loop self (e # es') record_id h
                       = get_source_block_heap_loop self es' record_id h"
          using False eq dict v by simp
        show ?thesis
          unfolding vskip hskip by (rule Cons.IH)
      next
        case True
        define bv where "bv =
          \<lparr>sb_id = pv, sb_provider_id = self_id P,
            sb_text = dict_get r ''text'' (PStr ''''),
            sb_media_path = dict_get r ''audio_path'' PNone,
            sb_metadata = dict_get r ''metadata'' (PDict [])\<rparr>"
        define ob where "ob =
          OSourceBlock v (HStr (self_id P))
            (heap_dict_get kvs ''text'' (HStr ''''))
            (heap_dict_get kvs ''audio_path'' HNone)
            (heap_dict_get kvs ''metadata'' (HRef (length h)))"
        let ?h2 = "h @ [ODict [], ob]"
        have vloop: "get_source_block_loop P (r # rs') record_id = Inr (Some bv)"
          using True by (simp add: getitem_def Some bv_def)
        have hloop: "get_source_block_heap_loop self (e # es') record_id h
                       = (Inr (HRef (Suc (length h))), ?h2)"
          using True eq dict v prov by (simp add: alloc_def ob_def)
        have up: "read_val (Suc n) ?h2 f = Some p" if "read_val n h f = Some p" for f p
          using read_back_append(1) [OF that, of "[ODict [], ob]"]
          by (rule read_back_more_fuel(1))
        have got: "read_val (Suc n) ?h2 (heap_dict_get kvs k dh) = Some (dict_get r k dp)"
          if "read_val n h dh = Some dp" for k dh dp
          using mo [of k] that
          by (auto simp: heap_dict_get_def dict_get_def intro: up split: option.splits)
        have meta: "read_val (Suc n) ?h2 (heap_dict_get kvs ''metadata'' (HRef (length h)))
                      = Some (dict_get r ''metadata'' (PDict []))"
        proof (cases "map_of kvs ''metadata''")
          case None
          with mo [of "''metadata''"] show ?thesis
            by (simp add: heap_dict_get_def dict_get_def heap_lookup_def)
        next
          case (Some mv)
          with mo [of "''metadata''"] show ?thesis
            by (auto simp: heap_dict_get_def dict_get_def intro: up split: option.splits)
        qed
        have sb_ob: "heap_lookup ?h2 (Suc (length h))
              = Some (OSourceBlock v (HStr (self_id P))
                        (heap_dict_get kvs ''text'' (HStr ''''))
                        (heap_dict_get kvs ''audio_path'' HNone)
                        (heap_dict_get kvs ''metadata'' (HRef (length h))))"
          by (simp add: heap_lookup_def nth_append ob_def)
        have "read_source_block (Suc n) ?h2 (HRef (Suc (length h))) = Some bv"
          using up [OF pv] got [of "HStr ''''" "PStr ''''" "''text''"]
            got [of HNone PNone "''audio_path''"] meta
          by (simp add: read_source_block_def sb_ob bv_def)
        then show ?thesis
          unfolding vloop hloop by simp
      qed
    qed
  qed
  have all: "list_all2 stored es (self_records P)"
    using read_list_dicts [OF rd] by (rule list_all2_mono) (simp add: stored_def)
  have call: "get_source_block_heap h self record_id
                = get_source_block_heap_loop self es record_id h"
    by (simp add: get_source_block_heap_def prov lst)
  have val: "fst (get_source_block P record_id)
               = get_source_block_loop P (self_records P) record_id"
    by (simp add: get_source_block_def)
  from sim [OF all] show ?thesis
    unfolding call val .
qed


text \<open>
  A call leaves the store in a state where the same reading of the provider holds, so a
  second call on the store the first one left returns a result that reads back as the
  same value: the same exception, or lists of \<^verbatim>\<open>SourceRecord\<close> objects with equal fields.
\<close>

lemma provider_state_kept:
  assumes prov: "get_provider h self = Inr (pid, pname, precords)"
    and lst: "get_list h precords = Inr es"
    and rd: "read_list (Suc n) h es = Some pvs"
  shows "get_provider (h @ new) self = Inr (pid, pname, precords) \<and>
         get_list (h @ new) precords = Inr es \<and>
         read_list (Suc n) (h @ new) es = Some pvs"
proof -
  from prov have "heap_lookup h self = Some (OProvider pid pname precords)"
    by (auto simp: get_provider_def split: option.splits obj.splits)
  from heap_lookup_append [OF this, of new]
  have p: "get_provider (h @ new) self = Inr (pid, pname, precords)"
    by (simp add: get_provider_def)
  from lst obtain la where la: "precords = HRef la" "heap_lookup h la = Some (OList es)"
    by (auto simp: get_list_def split: hval.splits option.splits obj.splits)
  from heap_lookup_append [OF la(2), of new] la(1)
  have l: "get_list (h @ new) precords = Inr es"
    by (simp add: get_list_def)
  from p l read_back_append(3) [OF rd] show ?thesis by simp
qed

lemma query_records_heap_twice:
  assumes prov: "get_provider h self = Inr (HStr (self_id P), pname, precords)"
    and lst: "get_list h precords = Inr es"
    and rd: "read_list (Suc n) h es = Some (map PDict (self_records P))"
    and first: "query_records_heap h self limit = (res1, h1)"
    and second: "query_records_heap h1 self limit = (res2, h2)"
  shows "case fst (query_records P limit) of
           Inl err \<Rightarrow> res1 = Inl (HKeyError ''job_id'') \<and> res2 = Inl (HKeyError ''job_id'')
         | Inr out \<Rightarrow>
             (\<exists>a refs. res1 = Inr (HRef a) \<and> heap_lookup h1 a = Some (OList refs) \<and>
                map (read_source_record (Suc n) h1) refs = map Some out) \<and>
             (\<exists>a refs. res2 = Inr (HRef a) \<and> heap_lookup h2 a = Some (OList refs) \<and>
                map (read_source_record (Suc n) h2) refs = map Some out)"
proof -
  from query_records_heap_frame [OF first] obtain new where new: "h1 = h @ new"
    using heap_extends by blast
  from provider_state_kept [OF prov lst rd, of new]
  have kept: "get_provider h1 self = Inr (HStr (self_id P), pname, precords)"
    "get_list h1 precords = Inr es"
    "read_list (Suc n) h1 es = Some (map PDict (self_records P))"
    by (simp_all add: new)
  from query_records_heap_refines [OF prov lst rd, of limit]
    query_records_heap_refines [OF kept, of limit]
  show ?thesis
    by (cases "fst (query_records P limit)") (simp_all add: first second)
qed

section \<open>Determinism of the accessors\<close>

text \<open>
  Claim C5 does not hold when only the \<^verbatim>\<open>_records\<close> list is fixed: the provider's \<^verbatim>\<open>_id\<close>
  is copied into every result. Two providers with the same list and different ids return
  different results for the same limit and for the same record id.
\<close>

theorem accessors_same_records_different_id_counterexample:
  "fst (query_records
          \<lparr>self_id = ''p1'', self_name = ''P'', self_records = [[(''job_id'', PStr ''a'')]]\<rparr> 1)
     \<noteq> fst (query_records
              \<lparr>self_id = ''p2'', self_name = ''P'', self_records = [[(''job_id'', PStr ''a'')]]\<rparr> 1) \<and>
   fst (get_source_block
          \<lparr>self_id = ''p1'', self_name = ''P'', self_records = [[(''job_id'', PStr ''a'')]]\<rparr> ''a'')
     \<noteq> fst (get_source_block
              \<lparr>self_id = ''p2'', self_name = ''P'', self_records = [[(''job_id'', PStr ''a'')]]\<rparr> ''a'')"
  by (simp add: query_records_def get_source_block_def slice_to_def getitem_def)

text \<open>
  Claim C5, as amended: deterministic output given the same input list and the same
  \<^verbatim>\<open>_id\<close>. For every fixed \<^verbatim>\<open>_records\<close> list and fixed \<^verbatim>\<open>_id\<close>, any two calls of
  \<^verbatim>\<open>query_records\<close> with the same limit return equal results (the same list, or the same
  exception), and any two calls of \<^verbatim>\<open>get_source_block\<close> with the same record id return
  equal results; nothing else of the provider, such as its \<^verbatim>\<open>_name\<close>, is read.
\<close>

theorem accessors_determined_by_records_and_id:
  "self_records p = self_records q \<and> self_id p = self_id q \<longrightarrow>
     fst (query_records p limit) = fst (query_records q limit) \<and>
     fst (get_source_block p record_id) = fst (get_source_block q record_id)"
proof (intro impI, elim conjE)
  assume recs: "self_records p = self_records q" and ids: "self_id p = self_id q"
  have "query_records_loop p (slice_to (self_records q) limit) []
          = query_records_loop q (slice_to (self_records q) limit) []"
    by (rule query_records_loop_cong [OF ids])
  moreover have "get_source_block_loop p (self_records q) record_id
                   = get_source_block_loop q (self_records q) record_id"
    by (rule get_source_block_loop_cong [OF ids])
  ultimately show "fst (query_records p limit) = fst (query_records q limit) \<and>
     fst (get_source_block p record_id) = fst (get_source_block q record_id)"
    using recs by (simp add: query_records_def get_source_block_def)
qed

theorem accessors_determined_by_records_and_id_witness:
  "self_records \<lparr>self_id = ''p1'', self_name = ''P'',
                 self_records = [[(''job_id'', PStr ''a'')], [(''job_id'', PStr ''b'')]]\<rparr>
     = self_records \<lparr>self_id = ''p1'', self_name = ''Q'',
                     self_records = [[(''job_id'', PStr ''a'')], [(''job_id'', PStr ''b'')]]\<rparr> \<and>
   self_id \<lparr>self_id = ''p1'', self_name = ''P'',
            self_records = [[(''job_id'', PStr ''a'')], [(''job_id'', PStr ''b'')]]\<rparr>
     = self_id \<lparr>self_id = ''p1'', self_name = ''Q'',
                self_records = [[(''job_id'', PStr ''a'')], [(''job_id'', PStr ''b'')]]\<rparr> \<and>
   fst (query_records
          \<lparr>self_id = ''p1'', self_name = ''P'',
           self_records = [[(''job_id'', PStr ''a'')], [(''job_id'', PStr ''b'')]]\<rparr> 1)
     = fst (query_records
              \<lparr>self_id = ''p1'', self_name = ''Q'',
               self_records = [[(''job_id'', PStr ''a'')], [(''job_id'', PStr ''b'')]]\<rparr> 1) \<and>
   fst (get_source_block
          \<lparr>self_id = ''p1'', self_name = ''P'',
           self_records = [[(''job_id'', PStr ''a'')], [(''job_id'', PStr ''b'')]]\<rparr> ''b'')
     = fst (get_source_block
              \<lparr>self_id = ''p1'', self_name = ''Q'',
               self_records = [[(''job_id'', PStr ''a'')], [(''job_id'', PStr ''b'')]]\<rparr> ''b'')"
  using accessors_determined_by_records_and_id [of
      "\<lparr>self_id = ''p1'', self_name = ''P'',
        self_records = [[(''job_id'', PStr ''a'')], [(''job_id'', PStr ''b'')]]\<rparr>"
      "\<lparr>self_id = ''p1'', self_name = ''Q'',
        self_records = [[(''job_id'', PStr ''a'')], [(''job_id'', PStr ''b'')]]\<rparr>"
      1 "''b''"]
  by simp

section \<open>Claims about the provider interface\<close>

text \<open>
  Claim C10: \<^verbatim>\<open>is_available()\<close> returns \<^verbatim>\<open>True\<close> for every provider, whatever its
  records, id or name, and leaves the provider as it was.
\<close>

theorem is_available_always_true:
  "fst (is_available self) = Inr True \<and> snd (is_available self) = self"
  by (simp add: is_available_def)

text \<open>
  Claim C7 does not hold as stated: \<^verbatim>\<open>query_records\<close> and \<^verbatim>\<open>get_source_block\<close> are not
  total over the provider's declared type. On a provider whose only stored record has
  no \<^verbatim>\<open>"job_id"\<close>, both raise \<^verbatim>\<open>KeyError\<close> instead of returning a value.
\<close>

theorem accessors_not_total_counterexample:
  "fst (query_records
         \<lparr>self_id = ''mock:demo-transcriptions'', self_name = ''Demo Transcriptions'',
          self_records = [[(''text'', PStr ''hello'')]]\<rparr>
         100)
     = Inl (KeyError ''job_id'') \<and>
   fst (get_source_block
         \<lparr>self_id = ''mock:demo-transcriptions'', self_name = ''Demo Transcriptions'',
          self_records = [[(''text'', PStr ''hello'')]]\<rparr>
         ''job_demo_001'')
     = Inl (KeyError ''job_id'')"
  by (simp add: query_records_def get_source_block_def slice_to_def getitem_def)

text \<open>
  Claim C7, as amended: the provider offers the five operations \<^verbatim>\<open>provider_id\<close>,
  \<^verbatim>\<open>provider_name\<close>, \<^verbatim>\<open>is_available\<close>, \<^verbatim>\<open>query_records\<close> and \<^verbatim>\<open>get_source_block\<close>. The
  first three return a value for every provider. \<^verbatim>\<open>query_records\<close> and
  \<^verbatim>\<open>get_source_block\<close> return a value for every limit and every record id whenever every
  stored record has the key \<^verbatim>\<open>"job_id"\<close>, as the records of a default-constructed
  provider do; when some stored record lacks the key, \<^verbatim>\<open>query_records\<close> with a limit of
  at least \<open>len(_records)\<close> raises \<^verbatim>\<open>KeyError('job_id')\<close>.
\<close>

theorem provider_interface_total:
  "fst (provider_id self) = Inr (self_id self) \<and>
   fst (provider_name self) = Inr (self_name self) \<and>
   fst (is_available self) = Inr True \<and>
   (list_all has_job_id (self_records self) \<longrightarrow>
      (\<exists>out. fst (query_records self limit) = Inr out) \<and>
      (\<exists>res. fst (get_source_block self record_id) = Inr res)) \<and>
   (\<not> list_all has_job_id (self_records self) \<and> int (length (self_records self)) \<le> limit \<longrightarrow>
      fst (query_records self limit) = Inl (KeyError ''job_id'')) \<and>
   list_all has_job_id (self_records (default_provider isoformat now))"
proof -
  have simple: "fst (provider_id self) = Inr (self_id self)"
    "fst (provider_name self) = Inr (self_name self)"
    "fst (is_available self) = Inr True"
    by (simp_all add: provider_id_def provider_name_def is_available_def)
  have total: "(\<exists>out. fst (query_records self limit) = Inr out) \<and>
      (\<exists>res. fst (get_source_block self record_id) = Inr res)"
    if all: "list_all has_job_id (self_records self)"
  proof -
    have "set (slice_to (self_records self) limit) \<subseteq> set (self_records self)"
      by (auto simp: slice_to_def Let_def dest: in_set_takeD)
    with all have "list_all has_job_id (slice_to (self_records self) limit)"
      by (auto simp: list_all_iff)
    from query_records_ok [OF this] have "\<exists>out. fst (query_records self limit) = Inr out"
      by blast
    moreover from get_source_block_loop_total [OF all, of self record_id]
    have "\<exists>res. fst (get_source_block self record_id) = Inr res"
      by (simp add: get_source_block_def)
    ultimately show ?thesis by blast
  qed
  have raises: "fst (query_records self limit) = Inl (KeyError ''job_id'')"
    if "\<not> list_all has_job_id (self_records self)" and "int (length (self_records self)) \<le> limit"
  proof -
    from that(2) have "slice_to (self_records self) limit = self_records self"
      by (simp add: slice_to_def Let_def)
    with that(1) have "\<not> list_all has_job_id (slice_to (self_records self) limit)"
      by simp
    then show ?thesis by (rule query_records_err)
  qed
  have dflt: "list_all has_job_id (self_records (default_provider isoformat now))"
    by (simp add: self_records_default_provider generate_sample_data_has_job_id)
  from simple total raises dflt show ?thesis by blast
qed

theorem provider_interface_total_witness:
  "\<forall>isoformat now.
     list_all has_job_id (self_records (default_provider isoformat now)) \<and>
     (\<exists>out. fst (query_records (default_provider isoformat now) 100) = Inr out) \<and>
     (\<exists>res. fst (get_source_block (default_provider isoformat now) ''job_demo_003'') = Inr res) \<and>
     \<not> list_all has_job_id
         (self_records \<lparr>self_id = ''p1'', self_name = ''P'',
                        self_records = [[(''text'', PStr ''hello'')]]\<rparr>) \<and>
     int (length (self_records \<lparr>self_id = ''p1'', self_name = ''P'',
                                self_records = [[(''text'', PStr ''hello'')]]\<rparr>)) \<le> 100 \<and>
     fst (query_records \<lparr>self_id = ''p1'', self_name = ''P'',
                         self_records = [[(''text'', PStr ''hello'')]]\<rparr> 100)
       = Inl (KeyError ''job_id'')"
proof (intro allI)
  fix isoformat :: "int \<Rightarrow> string" and now :: "nat \<Rightarrow> int"
  have bad: "\<not> list_all has_job_id
         (self_records \<lparr>self_id = ''p1'', self_name = ''P'',
                        self_records = [[(''text'', PStr ''hello'')]]\<rparr>)"
    by (simp add: has_job_id_def)
  have len: "int (length (self_records \<lparr>self_id = ''p1'', self_name = ''P'',
                                self_records = [[(''text'', PStr ''hello'')]]\<rparr>)) \<le> 100"
    by simp
  from provider_interface_total
      [of "default_provider isoformat now" 100 "''job_demo_003''" isoformat now]
    provider_interface_total
      [of "\<lparr>self_id = ''p1'', self_name = ''P'',
            self_records = [[(''text'', PStr ''hello'')]]\<rparr>" 100 "''job_demo_003''"
          isoformat now]
    bad len
  show "list_all has_job_id (self_records (default_provider isoformat now)) \<and>
     (\<exists>out. fst (query_records (default_provider isoformat now) 100) = Inr out) \<and>
     (\<exists>res. fst (get_source_block (default_provider isoformat now) ''job_demo_003'') = Inr res) \<and>
     \<not> list_all has_job_id
         (self_records \<lparr>self_id = ''p1'', self_name = ''P'',
                        self_records = [[(''text'', PStr ''hello'')]]\<rparr>) \<and>
     int (length (self_records \<lparr>self_id = ''p1'', self_name = ''P'',
                                self_records = [[(''text'', PStr ''hello'')]]\<rparr>)) \<le> 100 \<and>
     fst (query_records \<lparr>self_id = ''p1'', self_name = ''P'',
                         self_records = [[(''text'', PStr ''hello'')]]\<rparr> 100)
       = Inl (KeyError ''job_id'')"
    by blast
qed


end
